theory Spec2Isabelle
  imports Main
begin

section \<open>Data model\<close>

text \<open>
  The interfaces of the type definitions: \<^verbatim>\<open>Message\<close>, \<^verbatim>\<open>ChatRequest\<close> and
  \<^verbatim>\<open>SSEEvent\<close>. An optional field \<^verbatim>\<open>f?: T\<close> is a \<open>T option\<close>, with \<open>None\<close> for
  \<^verbatim>\<open>undefined\<close>. Field names carry a prefix because the interfaces share the
  name \<^verbatim>\<open>conversationId\<close>. Stream events are taken at their declared type.
\<close>

datatype role = user | assistant

record Message =
  role :: role
  content :: string
  timestamp :: "int option"

record ChatRequest =
  req_conversationId :: "string option"
  req_message :: string
  req_history :: "Message list"

record SSEEvent =
  ev_conversationId :: "string option"
  ev_answer :: "string option"
  ev_error :: "string option"
  ev_done :: "bool option"

text \<open>
  A \<^verbatim>\<open>ChatResponse\<close> at run time is whatever object the code hands out: the
  object literal built by the stream reader, or the value \<^verbatim>\<open>response.json()\<close>
  parsed from the body, which is cast to \<^verbatim>\<open>ChatResponse\<close> unchecked. So responses
  are JSON values. Numbers are never inspected by the client.
\<close>

datatype json =
    JNull
  | JBool bool
  | JNum int
  | JStr string
  | JArr "json list"
  | JObj "(string \<times> json) list"

definition ChatResponse :: "string \<Rightarrow> string \<Rightarrow> json" where
  "ChatResponse cid ans = JObj [(''conversationId'', JStr cid), (''answer'', JStr ans)]"

fun json_field :: "string \<Rightarrow> json \<Rightarrow> json option" where
  "json_field k (JObj kvs) = map_of kvs k"
| "json_field k _ = None"

text \<open>
  Thrown values: an \<^verbatim>\<open>Error\<close> object with its \<^verbatim>\<open>name\<close> and \<^verbatim>\<open>message\<close>, or a value
  that is not an instance of \<^verbatim>\<open>Error\<close>.
\<close>

datatype thrown = JsError string string | NonError

definition new_Error :: "string \<Rightarrow> thrown" where
  "new_Error msg = JsError ''Error'' msg"

record AgentClient =
  baseUrl :: string
  chatEndpoint :: string
  timeout :: nat

definition DEFAULT_CHAT_ENDPOINT :: string where
  "DEFAULT_CHAT_ENDPOINT = ''/chat''"

definition DEFAULT_TIMEOUT :: nat where
  "DEFAULT_TIMEOUT = 30000"

section \<open>Effects\<close>

text \<open>
  The calls the client makes on the platform and on the caller, in the order
  it makes them. \<open>NewEventSource url message conversationId history\<close> is the
  construction of the stream with its three query parameters; \<open>FetchPOST url
  headers body\<close> is the POST, its body the request that is serialised.
  \<open>ControllerAbort\<close> is \<^verbatim>\<open>controller.abort()\<close>, called by the timer of the fallback.
\<close>

datatype effect =
    NewEventSource string string string "Message list"
  | EventSourceClose
  | SetTimeout nat
  | ClearTimeout
  | ControllerAbort
  | OnChunk string
  | ConsoleError
  | ConsoleWarn thrown
  | Resolve json
  | Reject thrown
  | FetchPOST string "(string \<times> string) list" ChatRequest

section \<open>The stream reader\<close>

datatype timer_state = TimerPending | TimerFired | TimerCleared

text \<open>
  The variables the promise executor of \<^verbatim>\<open>sendMessageWithStreaming\<close> closes
  over: the two accumulators of the source, the ready state of the event
  source, the timer, the promise (settled at most once), and the effects so far.
\<close>

record stream_state =
  accumulatedAnswer :: string
  conversationId :: string
  es_closed :: bool
  timer :: timer_state
  promise :: "(thrown + json) option"
  trace :: "effect list"

definition emit :: "effect \<Rightarrow> stream_state \<Rightarrow> stream_state" where
  "emit e st = st\<lparr>trace := trace st @ [e]\<rparr>"

text \<open>\<^verbatim>\<open>resolve\<close> and \<^verbatim>\<open>reject\<close> of a promise: only the first call settles it.\<close>

definition resolve :: "json \<Rightarrow> stream_state \<Rightarrow> stream_state" where
  "resolve v st =
     emit (Resolve v) (if promise st = None then st\<lparr>promise := Some (Inr v)\<rparr> else st)"

definition reject :: "thrown \<Rightarrow> stream_state \<Rightarrow> stream_state" where
  "reject e st =
     emit (Reject e) (if promise st = None then st\<lparr>promise := Some (Inl e)\<rparr> else st)"

definition eventSource_close :: "stream_state \<Rightarrow> stream_state" where
  "eventSource_close st = emit EventSourceClose (st\<lparr>es_closed := True\<rparr>)"

text \<open>\<^verbatim>\<open>clearTimeout\<close> cancels a pending timer and leaves a fired one as it is.\<close>

definition clearTimeout :: "stream_state \<Rightarrow> stream_state" where
  "clearTimeout st =
     emit ClearTimeout
       (st\<lparr>timer := (if timer st = TimerPending then TimerCleared else timer st)\<rparr>)"

text \<open>
  Truthiness of an optional string: \<^verbatim>\<open>undefined\<close> and the empty string are
  falsy. The result is the string when it is truthy.
\<close>

definition truthy :: "string option \<Rightarrow> string option" where
  "truthy v = (case v of None \<Rightarrow> None | Some s \<Rightarrow> if s = [] then None else Some s)"

subsection \<open>The client without tracing\<close>

text \<open>
  \<^verbatim>\<open>cleanup\<close>: the timer handle returned by \<^verbatim>\<open>setTimeout\<close> is a positive integer,
  hence truthy, and it is assigned before any callback runs.
\<close>

definition cleanup :: "stream_state \<Rightarrow> stream_state" where
  "cleanup st = clearTimeout (eventSource_close st)"

definition on_timeout :: "stream_state \<Rightarrow> stream_state" where
  "on_timeout st = reject (new_Error ''Request timeout'') (cleanup st)"

text \<open>
  \<^verbatim>\<open>eventSource.onmessage\<close>. The payload is \<open>None\<close> when \<^verbatim>\<open>JSON.parse(event.data)\<close>
  throws (or yields \<^verbatim>\<open>null\<close>, so that reading \<^verbatim>\<open>data.error\<close> throws); the
  handler's \<^verbatim>\<open>catch\<close> logs it. \<open>onChunk a\<close> tells whether the caller's callback
  returns on the fragment \<open>a\<close>; when it throws, the same \<^verbatim>\<open>catch\<close> takes over and
  the rest of the \<^verbatim>\<open>try\<close> block is skipped.
\<close>

definition onmessage ::
  "ChatRequest \<Rightarrow> (string \<Rightarrow> bool) \<Rightarrow> SSEEvent option \<Rightarrow> stream_state \<Rightarrow> stream_state" where
  "onmessage request onChunk payload st =
     (case payload of
        None \<Rightarrow> emit ConsoleError st
      | Some data \<Rightarrow>
          (case truthy (ev_error data) of
             Some err \<Rightarrow> reject (new_Error err) (cleanup st)
           | None \<Rightarrow>
               let st1 = (case truthy (ev_conversationId data) of
                            Some c \<Rightarrow> st\<lparr>conversationId := c\<rparr>
                          | None \<Rightarrow> st);
                   (st2, threw) = (case truthy (ev_answer data) of
                            Some a \<Rightarrow>
                              (emit (OnChunk a)
                                 (st1\<lparr>accumulatedAnswer := accumulatedAnswer st1 @ a\<rparr>),
                               \<not> onChunk a)
                          | None \<Rightarrow> (st1, False))
               in if threw then emit ConsoleError st2
                  else if ev_done data = Some True then
                    resolve
                      (ChatResponse
                         (if conversationId st2 \<noteq> [] then conversationId st2
                          else (case truthy (req_conversationId request) of
                                  Some c \<Rightarrow> c | None \<Rightarrow> []))
                         (accumulatedAnswer st2))
                      (cleanup st2)
                  else st2))"

definition onerror :: "stream_state \<Rightarrow> stream_state" where
  "onerror st = reject (new_Error ''SSE connection error'') (cleanup st)"

text \<open>
  What the platform hands to the three callbacks. A closed event source
  dispatches nothing; a timer runs its callback once, and only while pending.
\<close>

datatype sse_input = OnMessage "SSEEvent option" | OnError | TimerFires

definition dispatch ::
  "ChatRequest \<Rightarrow> (string \<Rightarrow> bool) \<Rightarrow> sse_input \<Rightarrow> stream_state \<Rightarrow> stream_state" where
  "dispatch request onChunk i st =
     (case i of
        OnMessage payload \<Rightarrow> if es_closed st then st else onmessage request onChunk payload st
      | OnError \<Rightarrow> if es_closed st then st else onerror st
      | TimerFires \<Rightarrow>
          if timer st = TimerPending then on_timeout (st\<lparr>timer := TimerFired\<rparr>) else st)"

fun run ::
  "ChatRequest \<Rightarrow> (string \<Rightarrow> bool) \<Rightarrow> sse_input list \<Rightarrow> stream_state \<Rightarrow> stream_state" where
  "run request onChunk [] st = st"
| "run request onChunk (i # is) st = run request onChunk is (dispatch request onChunk i st)"

text \<open>
  The environment of one streaming attempt: the constructor of the event
  source throws, or the stream is open and these inputs arrive, in this order.
\<close>

datatype stream_env = EventSourceThrows thrown | EventSourceDelivers "sse_input list"

definition executor_state :: "AgentClient \<Rightarrow> string \<Rightarrow> ChatRequest \<Rightarrow> stream_state" where
  "executor_state this url request =
     \<lparr>accumulatedAnswer = [], conversationId = [], es_closed = False,
      timer = TimerPending, promise = None,
      trace = [NewEventSource url (req_message request)
                 (case truthy (req_conversationId request) of Some c \<Rightarrow> c | None \<Rightarrow> [])
                 (req_history request),
               SetTimeout (timeout this)]\<rparr>"

definition sendMessageWithStreaming ::
  "AgentClient \<Rightarrow> string \<Rightarrow> ChatRequest \<Rightarrow> (string \<times> string) list \<Rightarrow> (string \<Rightarrow> bool)
     \<Rightarrow> stream_env \<Rightarrow> stream_state" where
  "sendMessageWithStreaming this url request headers onChunk env =
     (case env of
        EventSourceThrows e \<Rightarrow>
          \<lparr>accumulatedAnswer = [], conversationId = [], es_closed = True,
           timer = TimerCleared, promise = Some (Inl e), trace = []\<rparr>
      | EventSourceDelivers inputs \<Rightarrow> run request onChunk inputs (executor_state this url request))"

section \<open>The fallback request\<close>

text \<open>
  The response of \<^verbatim>\<open>fetch\<close>: its status, what \<^verbatim>\<open>text()\<close> gives (\<open>None\<close> when it
  rejects) and what \<^verbatim>\<open>json()\<close> gives. \<^verbatim>\<open>response.ok\<close> is a status from 200 to 299.
\<close>

record http_response =
  status :: nat
  text_body :: "string option"
  json_body :: "thrown + json"

definition response_ok :: "http_response \<Rightarrow> bool" where
  "response_ok r = (200 \<le> status r \<and> status r \<le> 299)"

datatype fetch_outcome = FetchRejects thrown | FetchResolves http_response

type_synonym fetch_env = "string \<Rightarrow> (string \<times> string) list \<Rightarrow> ChatRequest \<Rightarrow> fetch_outcome"

text \<open>The decimal digits of a status code, as the template literal prints it.\<close>

fun js_toString :: "nat \<Rightarrow> string" where
  "js_toString n =
     (if n < 10 then [''0123456789'' ! n]
      else js_toString (n div 10) @ [''0123456789'' ! (n mod 10)])"

declare js_toString.simps [simp del]

text \<open>The \<^verbatim>\<open>catch\<close> clause of \<^verbatim>\<open>sendMessageNonStreaming\<close>, after its \<^verbatim>\<open>clearTimeout\<close>.\<close>

definition catch_clause :: "thrown \<Rightarrow> thrown" where
  "catch_clause error =
     (case error of
        JsError name msg \<Rightarrow>
          if name = ''AbortError'' then new_Error ''Request timeout'' else error
      | NonError \<Rightarrow> new_Error ''Unknown error occurred'')"

definition sendMessageNonStreaming ::
  "AgentClient \<Rightarrow> string \<Rightarrow> ChatRequest \<Rightarrow> (string \<times> string) list \<Rightarrow> fetch_env
     \<Rightarrow> (thrown + json) \<times> effect list" where
  "sendMessageNonStreaming this url request headers fetch =
     (let tr0 = [SetTimeout (timeout this), FetchPOST url headers request] in
      case fetch url headers request of
        FetchRejects e \<Rightarrow> (Inl (catch_clause e), tr0 @ [ClearTimeout])
      | FetchResolves response \<Rightarrow>
          let tr1 = tr0 @ [ClearTimeout] in
          if \<not> response_ok response then
            let errorText = (case text_body response of
                               Some t \<Rightarrow> t | None \<Rightarrow> ''Unknown error'')
            in (Inl (catch_clause
                       (new_Error (''HTTP '' @ js_toString (status response) @ '': ''
                                     @ errorText))),
                tr1 @ [ClearTimeout])
          else (case json_body response of
                  Inl e \<Rightarrow> (Inl (catch_clause e), tr1 @ [ClearTimeout])
                | Inr data \<Rightarrow> (Inr data, tr1)))"

subsection \<open>The fallback request, one await at a time\<close>








section \<open>The transport client\<close>

text \<open>
  \<^verbatim>\<open>sendMessage\<close>. The callback is optional; a supplied function is truthy.
  The result is \<open>None\<close> when the awaited stream promise never settles with the
  inputs of the environment.
\<close>

definition sendMessage ::
  "AgentClient \<Rightarrow> ChatRequest \<Rightarrow> (string \<Rightarrow> bool) option \<Rightarrow> stream_env \<Rightarrow> fetch_env
     \<Rightarrow> (thrown + json) option \<times> effect list" where
  "sendMessage this request onChunk senv fetch =
     (let url = baseUrl this @ chatEndpoint this;
          headers = [(''Content-Type'', ''application/json'')]
      in case onChunk of
           Some cb \<Rightarrow>
             (let st = sendMessageWithStreaming this url request headers cb senv in
              case promise st of
                None \<Rightarrow> (None, trace st)
              | Some (Inr response) \<Rightarrow> (Some (Inr response), trace st)
              | Some (Inl error) \<Rightarrow>
                  (let (res, tr) = sendMessageNonStreaming this url request headers fetch
                   in (Some res, trace st @ [ConsoleWarn error] @ tr)))
         | None \<Rightarrow>
             (let (res, tr) = sendMessageNonStreaming this url request headers fetch
              in (Some res, tr)))"

subsection \<open>The client with tracing\<close>

text \<open>
  The second copy of the client reports to a tracer and passes the timer
  handle to \<^verbatim>\<open>cleanup\<close>. The argument of \<open>cleanup_traced\<close> tells whether the
  handle is defined: the timer's own callback passes \<^verbatim>\<open>undefined\<close>.
\<close>

definition cleanup_traced :: "bool \<Rightarrow> stream_state \<Rightarrow> stream_state" where
  "cleanup_traced timerId st =
     (let st1 = eventSource_close st in if timerId then clearTimeout st1 else st1)"

definition on_timeout_traced :: "stream_state \<Rightarrow> stream_state" where
  "on_timeout_traced st = reject (new_Error ''Request timeout'') (cleanup_traced False st)"

definition onmessage_traced ::
  "ChatRequest \<Rightarrow> (string \<Rightarrow> bool) \<Rightarrow> SSEEvent option \<Rightarrow> stream_state \<Rightarrow> stream_state" where
  "onmessage_traced request onChunk payload st =
     (case payload of
        None \<Rightarrow> emit ConsoleError st
      | Some data \<Rightarrow>
          (case truthy (ev_error data) of
             Some err \<Rightarrow> reject (new_Error err) (cleanup_traced True st)
           | None \<Rightarrow>
               let st1 = (case truthy (ev_conversationId data) of
                            Some c \<Rightarrow> st\<lparr>conversationId := c\<rparr>
                          | None \<Rightarrow> st);
                   (st2, threw) = (case truthy (ev_answer data) of
                            Some a \<Rightarrow>
                              (emit (OnChunk a)
                                 (st1\<lparr>accumulatedAnswer := accumulatedAnswer st1 @ a\<rparr>),
                               \<not> onChunk a)
                          | None \<Rightarrow> (st1, False))
               in if threw then emit ConsoleError st2
                  else if ev_done data = Some True then
                    resolve
                      (ChatResponse
                         (if conversationId st2 \<noteq> [] then conversationId st2
                          else (case truthy (req_conversationId request) of
                                  Some c \<Rightarrow> c | None \<Rightarrow> []))
                         (accumulatedAnswer st2))
                      (cleanup_traced True st2)
                  else st2))"

definition onerror_traced :: "stream_state \<Rightarrow> stream_state" where
  "onerror_traced st = reject (new_Error ''SSE connection error'') (cleanup_traced True st)"

definition dispatch_traced ::
  "ChatRequest \<Rightarrow> (string \<Rightarrow> bool) \<Rightarrow> sse_input \<Rightarrow> stream_state \<Rightarrow> stream_state" where
  "dispatch_traced request onChunk i st =
     (case i of
        OnMessage payload \<Rightarrow>
          if es_closed st then st else onmessage_traced request onChunk payload st
      | OnError \<Rightarrow> if es_closed st then st else onerror_traced st
      | TimerFires \<Rightarrow>
          if timer st = TimerPending then on_timeout_traced (st\<lparr>timer := TimerFired\<rparr>)
          else st)"

fun run_traced ::
  "ChatRequest \<Rightarrow> (string \<Rightarrow> bool) \<Rightarrow> sse_input list \<Rightarrow> stream_state \<Rightarrow> stream_state" where
  "run_traced request onChunk [] st = st"
| "run_traced request onChunk (i # is) st =
     run_traced request onChunk is (dispatch_traced request onChunk i st)"

definition sendMessageWithStreaming_traced ::
  "AgentClient \<Rightarrow> string \<Rightarrow> ChatRequest \<Rightarrow> (string \<times> string) list \<Rightarrow> (string \<Rightarrow> bool)
     \<Rightarrow> stream_env \<Rightarrow> stream_state" where
  "sendMessageWithStreaming_traced this url request headers onChunk env =
     (case env of
        EventSourceThrows e \<Rightarrow>
          \<lparr>accumulatedAnswer = [], conversationId = [], es_closed = True,
           timer = TimerCleared, promise = Some (Inl e), trace = []\<rparr>
      | EventSourceDelivers inputs \<Rightarrow>
          run_traced request onChunk inputs (executor_state this url request))"

text \<open>
  \<^verbatim>\<open>sendMessage\<close> of the client with tracing. Before it returns a response it
  reads \<^verbatim>\<open>response.answer.length\<close> for an attribute of the span; that throws a
  \<^verbatim>\<open>TypeError\<close> unless the response is an object whose \<^verbatim>\<open>answer\<close> is neither
  \<^verbatim>\<open>undefined\<close> nor \<^verbatim>\<open>null\<close>. The error object is the engine's, so it is a
  parameter. After the stream the read sits inside the inner \<^verbatim>\<open>try\<close>, whose
  \<^verbatim>\<open>catch\<close> falls back; after the fallback the outer \<^verbatim>\<open>catch\<close> rethrows. The calls
  on the span itself are not recorded among the effects.
\<close>

definition reads_answer_length :: "json \<Rightarrow> bool" where
  "reads_answer_length response =
     (case response of
        JObj kvs \<Rightarrow> (case map_of kvs ''answer'' of
                       None \<Rightarrow> False | Some JNull \<Rightarrow> False | Some _ \<Rightarrow> True)
      | _ \<Rightarrow> False)"

definition sendMessage_traced ::
  "AgentClient \<Rightarrow> ChatRequest \<Rightarrow> (string \<Rightarrow> bool) option \<Rightarrow> stream_env \<Rightarrow> fetch_env
     \<Rightarrow> (json \<Rightarrow> thrown) \<Rightarrow> (thrown + json) option \<times> effect list" where
  "sendMessage_traced this request onChunk senv fetch typeError =
     (let url = baseUrl this @ chatEndpoint this;
          headers = [(''Content-Type'', ''application/json'')];
          fallback =
            (let (res, tr) = sendMessageNonStreaming this url request headers fetch
             in case res of
                  Inl error \<Rightarrow> (Some (Inl error), tr)
                | Inr response \<Rightarrow>
                    if reads_answer_length response then (Some (Inr response), tr)
                    else (Some (Inl (typeError response)), tr))
      in case onChunk of
           Some cb \<Rightarrow>
             (let st = sendMessageWithStreaming_traced this url request headers cb senv in
              case promise st of
                None \<Rightarrow> (None, trace st)
              | Some (Inr response) \<Rightarrow>
                  if reads_answer_length response then (Some (Inr response), trace st)
                  else (fst fallback,
                        trace st @ [ConsoleWarn (typeError response)] @ snd fallback)
              | Some (Inl error) \<Rightarrow>
                  (fst fallback, trace st @ [ConsoleWarn error] @ snd fallback))
         | None \<Rightarrow> fallback)"

section \<open>Vocabulary of the properties\<close>

text \<open>
  The non-empty answer fragments of a sequence of payloads, in order, and the
  non-empty conversation identifiers. A payload that did not parse has neither.
\<close>

fun fragments :: "SSEEvent option list \<Rightarrow> string list" where
  "fragments [] = []"
| "fragments (None # ps) = fragments ps"
| "fragments (Some e # ps) =
     (case ev_answer e of
        None \<Rightarrow> fragments ps
      | Some a \<Rightarrow> if a = [] then fragments ps else a # fragments ps)"

fun identifiers :: "SSEEvent option list \<Rightarrow> string list" where
  "identifiers [] = []"
| "identifiers (None # ps) = identifiers ps"
| "identifiers (Some e # ps) =
     (case ev_conversationId e of
        None \<Rightarrow> identifiers ps
      | Some c \<Rightarrow> if c = [] then identifiers ps else c # identifiers ps)"

text \<open>
  The last non-empty identifier seen, else the identifier of the request,
  else the empty string.
\<close>

definition final_conversationId :: "ChatRequest \<Rightarrow> SSEEvent option list \<Rightarrow> string" where
  "final_conversationId request ps =
     (if identifiers ps \<noteq> [] then last (identifiers ps)
      else (case req_conversationId request of Some c \<Rightarrow> c | None \<Rightarrow> []))"

text \<open>The fragments handed to the callback, read off the effects.\<close>

fun chunks :: "effect list \<Rightarrow> string list" where
  "chunks [] = []"
| "chunks (OnChunk a # es) = a # chunks es"
| "chunks (_ # es) = chunks es"

definition has_error :: "SSEEvent \<Rightarrow> bool" where
  "has_error e = (case ev_error e of None \<Rightarrow> False | Some s \<Rightarrow> s \<noteq> [])"

definition callback_throws :: "(string \<Rightarrow> bool) \<Rightarrow> SSEEvent \<Rightarrow> bool" where
  "callback_throws onChunk e =
     (case ev_answer e of None \<Rightarrow> False | Some a \<Rightarrow> a \<noteq> [] \<and> \<not> onChunk a)"

text \<open>
  A payload passes when it leaves the stream open: it did not parse, or it
  has no error text and either no completion flag or a fragment on which the
  callback throws. An event completes the stream when it has no error text,
  has the completion flag, and the callback returns on its fragment, if any.
\<close>

definition passes :: "(string \<Rightarrow> bool) \<Rightarrow> SSEEvent option \<Rightarrow> bool" where
  "passes onChunk p =
     (case p of
        None \<Rightarrow> True
      | Some e \<Rightarrow> \<not> has_error e \<and> (ev_done e \<noteq> Some True \<or> callback_throws onChunk e))"

definition completes :: "(string \<Rightarrow> bool) \<Rightarrow> SSEEvent \<Rightarrow> bool" where
  "completes onChunk e =
     (\<not> has_error e \<and> ev_done e = Some True \<and> \<not> callback_throws onChunk e)"

definition is_settle :: "effect \<Rightarrow> bool" where
  "is_settle e = (case e of Resolve _ \<Rightarrow> True | Reject _ \<Rightarrow> True | _ \<Rightarrow> False)"

definition is_release :: "effect \<Rightarrow> bool" where
  "is_release e = (case e of EventSourceClose \<Rightarrow> True | ClearTimeout \<Rightarrow> True | _ \<Rightarrow> False)"

definition quiet :: "effect \<Rightarrow> bool" where
  "quiet e = (\<not> is_release e \<and> \<not> is_settle e)"

text \<open>
  The shapes of the effects of a settled attempt. In a coupled exit the last
  three calls are \<^verbatim>\<open>eventSource.close()\<close>, \<^verbatim>\<open>clearTimeout\<close> and the settlement,
  and nothing before them releases or settles. In a bare timeout exit the
  connection is closed and the promise rejected with the timeout error, with no
  call of \<^verbatim>\<open>clearTimeout\<close> at all.
\<close>

definition coupled_exit :: "effect list \<Rightarrow> bool" where
  "coupled_exit tr =
     (case rev tr of
        s # ClearTimeout # EventSourceClose # before \<Rightarrow> is_settle s \<and> list_all quiet before
      | _ \<Rightarrow> False)"

definition bare_timeout_exit :: "effect list \<Rightarrow> bool" where
  "bare_timeout_exit tr =
     (case rev tr of
        Reject e # EventSourceClose # before \<Rightarrow>
          e = new_Error ''Request timeout'' \<and> list_all quiet before
      | _ \<Rightarrow> False)"

text \<open>
  The invariants of the stream reader's state, for the proofs: an open stream
  is unsettled with its timer pending; a closed one is settled, its timer is
  not pending, and its effects have the shape of an exit.
\<close>

definition stream_inv :: "stream_state \<Rightarrow> bool" where
  "stream_inv st =
     (if es_closed st
      then promise st \<noteq> None \<and> timer st \<noteq> TimerPending \<and> coupled_exit (trace st)
      else promise st = None \<and> timer st = TimerPending \<and> list_all quiet (trace st))"

definition stream_inv_traced :: "stream_state \<Rightarrow> bool" where
  "stream_inv_traced st =
     (if es_closed st
      then promise st \<noteq> None \<and> timer st \<noteq> TimerPending \<and>
           (if timer st = TimerFired then bare_timeout_exit (trace st)
            else coupled_exit (trace st))
      else promise st = None \<and> timer st = TimerPending \<and> list_all quiet (trace st))"

text \<open>Two states that differ at most in the \<^verbatim>\<open>console.error\<close> calls logged.\<close>

definition log_equiv :: "stream_state \<Rightarrow> stream_state \<Rightarrow> bool" where
  "log_equiv st st' =
     (accumulatedAnswer st = accumulatedAnswer st' \<and> conversationId st = conversationId st' \<and>
      es_closed st = es_closed st' \<and> timer st = timer st' \<and> promise st = promise st' \<and>
      filter (\<lambda>e. e \<noteq> ConsoleError) (trace st) = filter (\<lambda>e. e \<noteq> ConsoleError) (trace st'))"

text \<open>
  The second statement of the \<^verbatim>\<open>try\<close> block of \<^verbatim>\<open>onmessage\<close> on its own, for
  the proofs.
\<close>

definition step_conversationId :: "SSEEvent \<Rightarrow> stream_state \<Rightarrow> stream_state" where
  "step_conversationId data st =
     (case truthy (ev_conversationId data) of Some c \<Rightarrow> st\<lparr>conversationId := c\<rparr> | None \<Rightarrow> st)"

section \<open>Basic facts\<close>


lemma emit_simps [simp]:
  "accumulatedAnswer (emit e st) = accumulatedAnswer st"
  "conversationId (emit e st) = conversationId st"
  "es_closed (emit e st) = es_closed st"
  "timer (emit e st) = timer st"
  "promise (emit e st) = promise st"
  "trace (emit e st) = trace st @ [e]"
  by (simp_all add: emit_def)

lemma cleanup_simps [simp]:
  "accumulatedAnswer (cleanup st) = accumulatedAnswer st"
  "conversationId (cleanup st) = conversationId st"
  "es_closed (cleanup st)"
  "timer (cleanup st) = (if timer st = TimerPending then TimerCleared else timer st)"
  "promise (cleanup st) = promise st"
  "trace (cleanup st) = trace st @ [EventSourceClose, ClearTimeout]"
  by (simp_all add: cleanup_def clearTimeout_def eventSource_close_def)

lemma reject_simps [simp]:
  "accumulatedAnswer (reject x st) = accumulatedAnswer st"
  "conversationId (reject x st) = conversationId st"
  "es_closed (reject x st) = es_closed st"
  "timer (reject x st) = timer st"
  "promise (reject x st) = (if promise st = None then Some (Inl x) else promise st)"
  "trace (reject x st) = trace st @ [Reject x]"
  by (simp_all add: reject_def)

lemma resolve_simps [simp]:
  "accumulatedAnswer (resolve v st) = accumulatedAnswer st"
  "conversationId (resolve v st) = conversationId st"
  "es_closed (resolve v st) = es_closed st"
  "timer (resolve v st) = timer st"
  "promise (resolve v st) = (if promise st = None then Some (Inr v) else promise st)"
  "trace (resolve v st) = trace st @ [Resolve v]"
  by (simp_all add: resolve_def)

lemma dispatch_quiescent:
  "es_closed st \<Longrightarrow> timer st \<noteq> TimerPending \<Longrightarrow> dispatch request onChunk i st = st"
  by (cases i) (simp_all add: dispatch_def)

lemma run_quiescent:
  "es_closed st \<Longrightarrow> timer st \<noteq> TimerPending \<Longrightarrow> run request onChunk is st = st"
  by (induction "is") (simp_all add: dispatch_quiescent)

lemma run_append: "run request onChunk (xs @ ys) st = run request onChunk ys (run request onChunk xs st)"
  by (induction xs arbitrary: st) simp_all

lemma chunks_append [simp]: "chunks (xs @ ys) = chunks xs @ chunks ys"
  by (induction xs rule: chunks.induct) simp_all

lemma fragments_append [simp]: "fragments (ps @ qs) = fragments ps @ fragments qs"
  by (induction ps rule: fragments.induct) (simp_all split: option.splits)

lemma identifiers_append [simp]: "identifiers (ps @ qs) = identifiers ps @ identifiers qs"
  by (induction ps rule: identifiers.induct) (simp_all split: option.splits)

lemma truthy_None_iff: "truthy v = None \<longleftrightarrow> (v = None \<or> v = Some [])"
  by (simp add: truthy_def split: option.splits)

lemma truthy_Some_iff: "truthy v = Some s \<longleftrightarrow> (v = Some s \<and> s \<noteq> [])"
  by (auto simp: truthy_def split: option.splits)

lemma truthy_error: "truthy (ev_error e) = None \<longleftrightarrow> \<not> has_error e"
  by (auto simp: truthy_def has_error_def split: option.splits)


lemma onmessage_None: "onmessage request onChunk None st = emit ConsoleError st"
  by (simp add: onmessage_def)

lemma onmessage_error:
  "truthy (ev_error data) = Some err \<Longrightarrow>
   onmessage request onChunk (Some data) st = reject (new_Error err) (cleanup st)"
  by (simp add: onmessage_def)

lemma onmessage_no_fragment:
  "truthy (ev_error data) = None \<Longrightarrow> truthy (ev_answer data) = None \<Longrightarrow>
   onmessage request onChunk (Some data) st =
     (let st1 = step_conversationId data st in
      if ev_done data = Some True then
        resolve (ChatResponse
                   (if conversationId st1 \<noteq> [] then conversationId st1
                    else (case truthy (req_conversationId request) of Some c \<Rightarrow> c | None \<Rightarrow> []))
                   (accumulatedAnswer st1))
          (cleanup st1)
      else st1)"
  by (simp add: onmessage_def step_conversationId_def Let_def)

lemma onmessage_fragment:
  "truthy (ev_error data) = None \<Longrightarrow> truthy (ev_answer data) = Some a \<Longrightarrow>
   onmessage request onChunk (Some data) st =
     (let st1 = step_conversationId data st;
          st2 = emit (OnChunk a) (st1\<lparr>accumulatedAnswer := accumulatedAnswer st1 @ a\<rparr>) in
      if \<not> onChunk a then emit ConsoleError st2
      else if ev_done data = Some True then
        resolve (ChatResponse
                   (if conversationId st2 \<noteq> [] then conversationId st2
                    else (case truthy (req_conversationId request) of Some c \<Rightarrow> c | None \<Rightarrow> []))
                   (accumulatedAnswer st2))
          (cleanup st2)
      else st2)"
  by (simp add: onmessage_def step_conversationId_def Let_def)

lemma step_conversationId_simps [simp]:
  "accumulatedAnswer (step_conversationId data st) = accumulatedAnswer st"
  "es_closed (step_conversationId data st) = es_closed st"
  "timer (step_conversationId data st) = timer st"
  "promise (step_conversationId data st) = promise st"
  "trace (step_conversationId data st) = trace st"
  "conversationId (step_conversationId data st) =
     (case truthy (ev_conversationId data) of Some c \<Rightarrow> c | None \<Rightarrow> conversationId st)"
  by (simp_all add: step_conversationId_def split: option.splits)

lemma identifiers_single:
  "identifiers [Some e] = (case truthy (ev_conversationId e) of Some c \<Rightarrow> [c] | None \<Rightarrow> [])"
  by (simp add: truthy_def split: option.splits)

lemma fragments_single:
  "fragments [Some e] = (case truthy (ev_answer e) of Some a \<Rightarrow> [a] | None \<Rightarrow> [])"
  by (simp add: truthy_def split: option.splits)

lemma callback_throws_iff:
  "callback_throws onChunk e \<longleftrightarrow> (\<exists>a. truthy (ev_answer e) = Some a \<and> \<not> onChunk a)"
  by (auto simp: callback_throws_def truthy_def split: option.splits)

lemma onmessage_passes:
  assumes "passes onChunk p"
  shows "es_closed (onmessage request onChunk p st) = es_closed st"
    and "timer (onmessage request onChunk p st) = timer st"
    and "promise (onmessage request onChunk p st) = promise st"
    and "accumulatedAnswer (onmessage request onChunk p st)
           = accumulatedAnswer st @ concat (fragments [p])"
    and "conversationId (onmessage request onChunk p st)
           = (if identifiers [p] = [] then conversationId st else last (identifiers [p]))"
    and "chunks (trace (onmessage request onChunk p st)) = chunks (trace st) @ fragments [p]"
proof -
  let ?goal = "es_closed (onmessage request onChunk p st) = es_closed st
    \<and> timer (onmessage request onChunk p st) = timer st
    \<and> promise (onmessage request onChunk p st) = promise st
    \<and> accumulatedAnswer (onmessage request onChunk p st)
           = accumulatedAnswer st @ concat (fragments [p])
    \<and> conversationId (onmessage request onChunk p st)
           = (if identifiers [p] = [] then conversationId st else last (identifiers [p]))
    \<and> chunks (trace (onmessage request onChunk p st)) = chunks (trace st) @ fragments [p]"
  have ?goal
  proof (cases p)
    case None
    then show ?thesis by (simp add: onmessage_None)
  next
    case (Some e)
    with assms have err: "truthy (ev_error e) = None"
      and dn: "ev_done e \<noteq> Some True \<or> callback_throws onChunk e"
      by (simp_all add: passes_def truthy_error)
    show ?thesis
    proof (cases "truthy (ev_answer e)")
      case None
      with dn have "ev_done e \<noteq> Some True" by (simp add: callback_throws_iff)
      with None err Some show ?thesis
        by (cases "truthy (ev_conversationId e)")
           (simp_all add: onmessage_no_fragment identifiers_single fragments_single Let_def
              del: fragments.simps identifiers.simps)
    next
      case (Some a)
      with dn have "ev_done e \<noteq> Some True \<or> \<not> onChunk a" by (simp add: callback_throws_iff)
      with Some err \<open>p = Some e\<close> show ?thesis
        by (cases "truthy (ev_conversationId e)")
           (auto simp add: onmessage_fragment identifiers_single fragments_single Let_def
              simp del: fragments.simps identifiers.simps)
    qed
  qed
  then show "es_closed (onmessage request onChunk p st) = es_closed st"
    and "timer (onmessage request onChunk p st) = timer st"
    and "promise (onmessage request onChunk p st) = promise st"
    and "accumulatedAnswer (onmessage request onChunk p st)
           = accumulatedAnswer st @ concat (fragments [p])"
    and "conversationId (onmessage request onChunk p st)
           = (if identifiers [p] = [] then conversationId st else last (identifiers [p]))"
    and "chunks (trace (onmessage request onChunk p st)) = chunks (trace st) @ fragments [p]"
    by simp_all
qed

lemma fragments_Cons: "fragments (p # ps) = fragments [p] @ fragments ps"
  using fragments_append [of "[p]" ps] by simp

lemma identifiers_Cons: "identifiers (p # ps) = identifiers [p] @ identifiers ps"
  using identifiers_append [of "[p]" ps] by simp

lemma run_passes:
  assumes "\<forall>p\<in>set pre. passes onChunk p" and "\<not> es_closed st"
  shows "\<not> es_closed (run request onChunk (map OnMessage pre) st)
    \<and> timer (run request onChunk (map OnMessage pre) st) = timer st
    \<and> promise (run request onChunk (map OnMessage pre) st) = promise st
    \<and> accumulatedAnswer (run request onChunk (map OnMessage pre) st)
         = accumulatedAnswer st @ concat (fragments pre)
    \<and> conversationId (run request onChunk (map OnMessage pre) st)
         = (if identifiers pre = [] then conversationId st else last (identifiers pre))
    \<and> chunks (trace (run request onChunk (map OnMessage pre) st))
         = chunks (trace st) @ fragments pre"
  using assms
proof (induction pre arbitrary: st)
  case Nil
  then show ?case by simp
next
  case (Cons p pre)
  let ?st = "onmessage request onChunk p st"
  from Cons.prems have p: "passes onChunk p" and rest: "\<forall>p\<in>set pre. passes onChunk p"
    by simp_all
  have step: "dispatch request onChunk (OnMessage p) st = ?st"
    using Cons.prems(2) by (simp add: dispatch_def)
  have open': "\<not> es_closed ?st"
    using onmessage_passes(1) [OF p] Cons.prems(2) by simp
  note ih = Cons.IH [OF rest open']
  have run_eq: "run request onChunk (map OnMessage (p # pre)) st
                  = run request onChunk (map OnMessage pre) ?st"
    using step by simp
  show ?case
    unfolding run_eq
    using ih onmessage_passes(2-6) [OF p, of request st]
    by (simp add: fragments_Cons [of p pre] identifiers_Cons [of p pre]
        del: fragments.simps identifiers.simps)
qed

lemma identifiers_nonempty: "[] \<notin> set (identifiers ps)"
  by (induction ps rule: identifiers.induct) (simp_all split: option.splits)

lemma last_identifiers_nonempty: "identifiers ps \<noteq> [] \<Longrightarrow> last (identifiers ps) \<noteq> []"
  using identifiers_nonempty [of ps] last_in_set [of "identifiers ps"] by metis

lemma truthy_default:
  "(case truthy v of Some c \<Rightarrow> c | None \<Rightarrow> []) = (case v of Some c \<Rightarrow> c | None \<Rightarrow> [])"
  by (simp add: truthy_def split: option.splits)

lemma onmessage_completes:
  assumes "completes onChunk d" and "promise st = None"
  shows "promise (onmessage request onChunk (Some d) st) =
           Some (Inr (ChatResponse
             (let c = (if identifiers [Some d] = [] then conversationId st
                       else last (identifiers [Some d]))
              in if c \<noteq> [] then c
                 else (case req_conversationId request of Some c \<Rightarrow> c | None \<Rightarrow> []))
             (accumulatedAnswer st @ concat (fragments [Some d]))))
    \<and> es_closed (onmessage request onChunk (Some d) st)
    \<and> timer (onmessage request onChunk (Some d) st)
         = (if timer st = TimerPending then TimerCleared else timer st)
    \<and> chunks (trace (onmessage request onChunk (Some d) st))
         = chunks (trace st) @ fragments [Some d]"
proof -
  from assms(1) have err: "truthy (ev_error d) = None" and dn: "ev_done d = Some True"
    and cb: "\<not> callback_throws onChunk d"
    by (simp_all add: completes_def truthy_error)
  show ?thesis
  proof (cases "truthy (ev_answer d)")
    case None
    with err dn assms(2) show ?thesis
      by (cases "truthy (ev_conversationId d)")
         (simp_all add: onmessage_no_fragment identifiers_single fragments_single Let_def
            truthy_default del: fragments.simps identifiers.simps)
  next
    case (Some a)
    with cb have "onChunk a" by (simp add: callback_throws_iff)
    with Some err dn assms(2) show ?thesis
      by (cases "truthy (ev_conversationId d)")
         (simp_all add: onmessage_fragment identifiers_single fragments_single Let_def
            truthy_default del: fragments.simps identifiers.simps)
  qed
qed

lemma executor_state_simps [simp]:
  "accumulatedAnswer (executor_state this url request) = []"
  "conversationId (executor_state this url request) = []"
  "\<not> es_closed (executor_state this url request)"
  "timer (executor_state this url request) = TimerPending"
  "promise (executor_state this url request) = None"
  "chunks (trace (executor_state this url request)) = []"
  by (simp_all add: executor_state_def)

lemma streamed_completion:
  assumes "\<forall>p\<in>set pre. passes onChunk p" and "completes onChunk d"
  shows "promise (sendMessageWithStreaming this url request headers onChunk
            (EventSourceDelivers (map OnMessage pre @ OnMessage (Some d) # rest)))
           = Some (Inr (ChatResponse (final_conversationId request (pre @ [Some d]))
                          (concat (fragments (pre @ [Some d])))))
    \<and> chunks (trace (sendMessageWithStreaming this url request headers onChunk
            (EventSourceDelivers (map OnMessage pre @ OnMessage (Some d) # rest))))
           = fragments (pre @ [Some d])"
proof -
  let ?st0 = "executor_state this url request"
  let ?st1 = "run request onChunk (map OnMessage pre) ?st0"
  let ?st2 = "onmessage request onChunk (Some d) ?st1"
  have r1: "\<not> es_closed ?st1" "timer ?st1 = TimerPending" "promise ?st1 = None"
    "accumulatedAnswer ?st1 = concat (fragments pre)"
    "conversationId ?st1 = (if identifiers pre = [] then [] else last (identifiers pre))"
    "chunks (trace ?st1) = fragments pre"
    using run_passes [OF assms(1), of ?st0 request] by simp_all
  note c = onmessage_completes [OF assms(2) r1(3), of request]
  have quiescent: "es_closed ?st2" "timer ?st2 \<noteq> TimerPending"
    using c r1(2) by simp_all
  have final: "sendMessageWithStreaming this url request headers onChunk
            (EventSourceDelivers (map OnMessage pre @ OnMessage (Some d) # rest)) = ?st2"
    using r1(1) quiescent
    by (simp add: sendMessageWithStreaming_def run_append dispatch_def run_quiescent)
  have cid: "(let c = (if identifiers [Some d] = [] then conversationId ?st1
                       else last (identifiers [Some d]))
              in if c \<noteq> [] then c
                 else (case req_conversationId request of Some c \<Rightarrow> c | None \<Rightarrow> []))
             = final_conversationId request (pre @ [Some d])"
    using last_identifiers_nonempty [of pre] last_identifiers_nonempty [of "[Some d]"]
    by (simp add: r1(5) final_conversationId_def Let_def del: identifiers.simps)
  show ?thesis
    unfolding final using c cid r1(4,6) by (simp del: fragments.simps identifiers.simps)
qed

lemma quiet_simps [simp]:
  "quiet (OnChunk a)" "quiet ConsoleError" "quiet (NewEventSource u m c h)" "quiet (SetTimeout n)"
  "\<not> quiet EventSourceClose" "\<not> quiet ClearTimeout" "\<not> quiet (Resolve v)" "\<not> quiet (Reject x)"
  by (simp_all add: quiet_def is_release_def is_settle_def)

lemma coupled_exit_intro:
  "list_all quiet tr \<Longrightarrow> is_settle s \<Longrightarrow> coupled_exit (tr @ [EventSourceClose, ClearTimeout, s])"
  by (simp add: coupled_exit_def)

lemma stream_inv_executor: "stream_inv (executor_state this url request)"
  by (simp add: stream_inv_def executor_state_def)

lemma stream_inv_open:
  "\<not> es_closed st \<Longrightarrow> stream_inv st \<longleftrightarrow>
     promise st = None \<and> timer st = TimerPending \<and> list_all quiet (trace st)"
  by (simp add: stream_inv_def)

lemma stream_inv_terminal:
  assumes "stream_inv st" "\<not> es_closed st" "is_settle (Reject x)"
  shows "stream_inv (reject x (cleanup st))"
  using assms by (simp add: stream_inv_def coupled_exit_def)

lemma is_settle_simps [simp]: "is_settle (Reject x)" "is_settle (Resolve v)"
  by (simp_all add: is_settle_def)

lemma onmessage_inv:
  assumes "stream_inv st" and "\<not> es_closed st"
  shows "stream_inv (onmessage request onChunk p st)"
proof (cases p)
  case None
  with assms show ?thesis by (simp add: onmessage_None stream_inv_def)
next
  case (Some d)
  show ?thesis
  proof (cases "truthy (ev_error d)")
    case (Some err)
    with assms \<open>p = Some d\<close> show ?thesis
      by (simp add: onmessage_error stream_inv_def coupled_exit_def)
  next
    case None
    note err = None
    show ?thesis
    proof (cases "truthy (ev_answer d)")
      case None
      with assms err \<open>p = Some d\<close> show ?thesis
        by (simp add: onmessage_no_fragment stream_inv_def coupled_exit_def Let_def)
    next
      case (Some a)
      with assms err \<open>p = Some d\<close> show ?thesis
        by (simp add: onmessage_fragment stream_inv_def coupled_exit_def Let_def)
    qed
  qed
qed

lemma dispatch_inv:
  assumes "stream_inv st"
  shows "stream_inv (dispatch request onChunk i st)"
proof (cases "es_closed st")
  case True
  with assms have "timer st \<noteq> TimerPending" by (simp add: stream_inv_def)
  with True assms show ?thesis by (simp add: dispatch_quiescent)
next
  case False
  with assms have o: "promise st = None" "timer st = TimerPending" "list_all quiet (trace st)"
    by (simp_all add: stream_inv_def)
  show ?thesis
  proof (cases i)
    case (OnMessage p)
    with False assms show ?thesis by (simp add: dispatch_def onmessage_inv)
  next
    case OnError
    with False o show ?thesis
      by (simp add: dispatch_def onerror_def stream_inv_def coupled_exit_def)
  next
    case TimerFires
    with False o show ?thesis
      by (simp add: dispatch_def on_timeout_def stream_inv_def coupled_exit_def)
  qed
qed

lemma run_inv: "stream_inv st \<Longrightarrow> stream_inv (run request onChunk is st)"
  by (induction "is" arbitrary: st) (simp_all add: dispatch_inv)

lemma cleanup_traced_True: "cleanup_traced True st = cleanup st"
  by (simp add: cleanup_traced_def cleanup_def Let_def)

lemma onmessage_traced_eq: "onmessage_traced request onChunk p st = onmessage request onChunk p st"
  unfolding onmessage_traced_def onmessage_def cleanup_traced_True by (rule refl)

lemma onerror_traced_eq: "onerror_traced st = onerror st"
  by (simp add: onerror_traced_def onerror_def cleanup_traced_True)

lemma cleanup_traced_False_simps [simp]:
  "accumulatedAnswer (cleanup_traced False st) = accumulatedAnswer st"
  "conversationId (cleanup_traced False st) = conversationId st"
  "es_closed (cleanup_traced False st)"
  "timer (cleanup_traced False st) = timer st"
  "promise (cleanup_traced False st) = promise st"
  "trace (cleanup_traced False st) = trace st @ [EventSourceClose]"
  by (simp_all add: cleanup_traced_def eventSource_close_def Let_def)

lemma dispatch_traced_quiescent:
  "es_closed st \<Longrightarrow> timer st \<noteq> TimerPending \<Longrightarrow> dispatch_traced request onChunk i st = st"
  by (cases i) (simp_all add: dispatch_traced_def)

lemma stream_inv_traced_executor: "stream_inv_traced (executor_state this url request)"
  by (simp add: stream_inv_traced_def executor_state_def)

lemma stream_inv_imp_traced:
  "stream_inv st \<Longrightarrow> timer st \<noteq> TimerFired \<Longrightarrow> stream_inv_traced st"
  by (simp add: stream_inv_def stream_inv_traced_def)

lemma onmessage_timer:
  "timer (onmessage request onChunk p st) = timer st
   \<or> timer (onmessage request onChunk p st) = TimerCleared"
proof (cases p)
  case None
  then show ?thesis by (simp add: onmessage_None)
next
  case (Some d)
  show ?thesis
  proof (cases "truthy (ev_error d)")
    case (Some err)
    with \<open>p = Some d\<close> show ?thesis by (simp add: onmessage_error)
  next
    case None
    with \<open>p = Some d\<close> show ?thesis
      by (cases "truthy (ev_answer d)")
         (simp_all add: onmessage_no_fragment onmessage_fragment Let_def)
  qed
qed

lemma dispatch_traced_inv:
  assumes "stream_inv_traced st"
  shows "stream_inv_traced (dispatch_traced request onChunk i st)"
proof (cases "es_closed st")
  case True
  with assms have "timer st \<noteq> TimerPending" by (simp add: stream_inv_traced_def)
  with True assms show ?thesis by (simp add: dispatch_traced_quiescent)
next
  case False
  with assms have o: "promise st = None" "timer st = TimerPending" "list_all quiet (trace st)"
    by (simp_all add: stream_inv_traced_def)
  with False have inv: "stream_inv st" by (simp add: stream_inv_def)
  show ?thesis
  proof (cases i)
    case (OnMessage p)
    have "stream_inv (onmessage request onChunk p st)"
      using inv False by (rule onmessage_inv)
    moreover have "timer (onmessage request onChunk p st) \<noteq> TimerFired"
      using onmessage_timer [of request onChunk p st] o(2) by auto
    ultimately show ?thesis
      using OnMessage False
      by (simp add: dispatch_traced_def onmessage_traced_eq stream_inv_imp_traced)
  next
    case OnError
    with False o show ?thesis
      by (simp add: dispatch_traced_def onerror_traced_eq onerror_def stream_inv_traced_def
          coupled_exit_def)
  next
    case TimerFires
    with False o show ?thesis
      by (simp add: dispatch_traced_def on_timeout_traced_def stream_inv_traced_def
          bare_timeout_exit_def)
  qed
qed

lemma run_traced_inv:
  "stream_inv_traced st \<Longrightarrow> stream_inv_traced (run_traced request onChunk is st)"
  by (induction "is" arbitrary: st) (simp_all add: dispatch_traced_inv)

lemma filter_settle_quiet: "list_all quiet tr \<Longrightarrow> filter is_settle tr = []"
  by (induction tr) (simp_all add: quiet_def)

lemma log_equiv_refl: "log_equiv st st"
  by (simp add: log_equiv_def)

lemma log_equiv_console: "log_equiv (emit ConsoleError st) st"
  by (simp add: log_equiv_def)

lemma chunks_filter_log: "chunks (filter (\<lambda>e. e \<noteq> ConsoleError) tr) = chunks tr"
  by (induction tr rule: chunks.induct) simp_all

lemma log_equiv_chunks: "log_equiv st st' \<Longrightarrow> chunks (trace st) = chunks (trace st')"
  using chunks_filter_log [of "trace st"] chunks_filter_log [of "trace st'"]
  by (simp add: log_equiv_def)

lemma onmessage_log_equiv:
  assumes "log_equiv st st'"
  shows "log_equiv (onmessage request onChunk p st) (onmessage request onChunk p st')"
proof (cases p)
  case None
  with assms show ?thesis by (simp add: onmessage_None log_equiv_def)
next
  case (Some d)
  show ?thesis
  proof (cases "truthy (ev_error d)")
    case (Some err)
    with assms \<open>p = Some d\<close> show ?thesis by (simp add: onmessage_error log_equiv_def)
  next
    case None
    note err = None
    show ?thesis
    proof (cases "truthy (ev_answer d)")
      case None
      with assms err \<open>p = Some d\<close> show ?thesis
        by (cases "truthy (ev_conversationId d)")
           (simp_all add: onmessage_no_fragment log_equiv_def Let_def)
    next
      case (Some a)
      with assms err \<open>p = Some d\<close> show ?thesis
        by (cases "truthy (ev_conversationId d)")
           (simp_all add: onmessage_fragment log_equiv_def Let_def)
    qed
  qed
qed

lemma dispatch_log_equiv:
  assumes "log_equiv st st'"
  shows "log_equiv (dispatch request onChunk i st) (dispatch request onChunk i st')"
proof (cases i)
  case (OnMessage p)
  have c: "es_closed st = es_closed st'" using assms by (simp add: log_equiv_def)
  show ?thesis
    using OnMessage c assms onmessage_log_equiv [OF assms, of request onChunk p]
    by (simp add: dispatch_def)
next
  case OnError
  with assms show ?thesis by (simp add: dispatch_def onerror_def log_equiv_def)
next
  case TimerFires
  with assms show ?thesis by (simp add: dispatch_def on_timeout_def log_equiv_def)
qed

lemma run_log_equiv:
  "log_equiv st st' \<Longrightarrow> log_equiv (run request onChunk is st) (run request onChunk is st')"
  by (induction "is" arbitrary: st st') (simp_all add: dispatch_log_equiv)

lemma dispatch_unparsed_log_equiv:
  "log_equiv (dispatch request onChunk (OnMessage None) st) st"
  by (simp add: dispatch_def onmessage_None log_equiv_console log_equiv_refl)

lemma not_passes_cases:
  "\<not> passes onChunk p \<Longrightarrow> \<exists>d. p = Some d \<and> (has_error d \<or> completes onChunk d)"
  by (cases p) (auto simp: passes_def completes_def)

lemma run_closed_promise:
  assumes "stream_inv st" and "es_closed st"
  shows "run request onChunk is st = st"
  using assms by (simp add: stream_inv_def run_quiescent)

lemma completion_has_shape:
  assumes "promise (run request onChunk inputs st) = Some (Inr r)"
    and "stream_inv st" and "\<not> es_closed st"
  shows "\<exists>pre d rest. inputs = map OnMessage pre @ OnMessage (Some d) # rest
           \<and> (\<forall>p\<in>set pre. passes onChunk p) \<and> completes onChunk d"
  using assms
proof (induction inputs arbitrary: st)
  case Nil
  then show ?case by (simp add: stream_inv_def)
next
  case (Cons i inputs)
  from Cons.prems(2,3) have o: "promise st = None" "timer st = TimerPending"
    by (simp_all add: stream_inv_def)
  let ?st = "dispatch request onChunk i st"
  have inv': "stream_inv ?st" using Cons.prems(2) by (rule dispatch_inv)
  have res: "promise (run request onChunk inputs ?st) = Some (Inr r)"
    using Cons.prems(1) by simp
  show ?case
  proof (cases i)
    case OnError
    then have "es_closed ?st" "promise ?st = Some (Inl (new_Error ''SSE connection error''))"
      using Cons.prems(3) o by (simp_all add: dispatch_def onerror_def)
    with res run_closed_promise [OF inv', of request onChunk inputs] show ?thesis by simp
  next
    case TimerFires
    then have "es_closed ?st" "promise ?st = Some (Inl (new_Error ''Request timeout''))"
      using o by (simp_all add: dispatch_def on_timeout_def)
    with res run_closed_promise [OF inv', of request onChunk inputs] show ?thesis by simp
  next
    case (OnMessage p)
    then have st_eq: "?st = onmessage request onChunk p st"
      using Cons.prems(3) by (simp add: dispatch_def)
    show ?thesis
    proof (cases "passes onChunk p")
      case True
      then have "\<not> es_closed ?st"
        using onmessage_passes(1) [OF True, of request st] Cons.prems(3) st_eq by simp
      from Cons.IH [OF res inv' this]
      obtain pre d rest where dec: "inputs = map OnMessage pre @ OnMessage (Some d) # rest"
        "\<forall>p\<in>set pre. passes onChunk p" "completes onChunk d"
        by blast
      have "i # inputs = map OnMessage (p # pre) @ OnMessage (Some d) # rest"
        using dec(1) OnMessage by simp
      moreover have "\<forall>q\<in>set (p # pre). passes onChunk q" using True dec(2) by simp
      ultimately show ?thesis using dec(3) by blast
    next
      case False
      then obtain d where d: "p = Some d" "has_error d \<or> completes onChunk d"
        using not_passes_cases by blast
      show ?thesis
      proof (cases "has_error d")
        case True
        then obtain err where "truthy (ev_error d) = Some err"
          using truthy_error [of d] by (cases "truthy (ev_error d)") simp_all
        then have "es_closed ?st" "promise ?st = Some (Inl (new_Error err))"
          using st_eq d(1) o by (simp_all add: onmessage_error)
        with res run_closed_promise [OF inv', of request onChunk inputs] show ?thesis by simp
      next
        case False
        with d(2) have "completes onChunk d" by simp
        moreover have "i # inputs = map OnMessage [] @ OnMessage (Some d) # inputs"
          using OnMessage d(1) by simp
        ultimately show ?thesis by (metis empty_iff list.set(1))
      qed
    qed
  qed
qed

lemma every_streamed_completion:
  assumes "promise (sendMessageWithStreaming this url request headers onChunk senv)
             = Some (Inr r)"
  shows "\<exists>pre d rest.
           senv = EventSourceDelivers (map OnMessage pre @ OnMessage (Some d) # rest)
           \<and> (\<forall>p\<in>set pre. passes onChunk p) \<and> completes onChunk d
           \<and> r = ChatResponse (final_conversationId request (pre @ [Some d]))
                   (concat (fragments (pre @ [Some d])))"
proof (cases senv)
  case (EventSourceThrows e)
  with assms show ?thesis by (simp add: sendMessageWithStreaming_def)
next
  case (EventSourceDelivers inputs)
  with assms have "promise (run request onChunk inputs (executor_state this url request))
                     = Some (Inr r)"
    by (simp add: sendMessageWithStreaming_def)
  from completion_has_shape [OF this stream_inv_executor]
  obtain pre d rest where dec: "inputs = map OnMessage pre @ OnMessage (Some d) # rest"
    "\<forall>p\<in>set pre. passes onChunk p" "completes onChunk d"
    by auto
  from streamed_completion [OF dec(2,3), of this url request headers rest] assms
  have "r = ChatResponse (final_conversationId request (pre @ [Some d]))
              (concat (fragments (pre @ [Some d])))"
    using EventSourceDelivers dec(1) by simp
  with dec EventSourceDelivers show ?thesis by blast
qed

lemma onmessage_rejects:
  assumes "promise (onmessage request onChunk p st) = Some (Inl e)"
  shows "promise st = Some (Inl e)
         \<or> (\<exists>d err. p = Some d \<and> truthy (ev_error d) = Some err \<and> e = new_Error err)"
proof (cases p)
  case None
  with assms show ?thesis by (simp add: onmessage_None)
next
  case (Some d)
  show ?thesis
  proof (cases "truthy (ev_error d)")
    case (Some err)
    with assms \<open>p = Some d\<close> show ?thesis
      by (simp add: onmessage_error split: if_splits)
  next
    case None
    with assms \<open>p = Some d\<close> show ?thesis
      by (cases "truthy (ev_answer d)")
         (simp_all add: onmessage_no_fragment onmessage_fragment Let_def split: if_splits)
  qed
qed

lemma dispatch_rejects:
  assumes "promise (dispatch request onChunk i st) = Some (Inl e)"
  shows "promise st = Some (Inl e)
         \<or> (i = TimerFires \<and> e = new_Error ''Request timeout'')
         \<or> (i = OnError \<and> e = new_Error ''SSE connection error'')
         \<or> (\<exists>d err. i = OnMessage (Some d) \<and> truthy (ev_error d) = Some err
                      \<and> e = new_Error err)"
proof (cases i)
  case (OnMessage p)
  with assms onmessage_rejects [of request onChunk p st e] show ?thesis
    by (auto simp: dispatch_def split: if_splits)
next
  case OnError
  with assms show ?thesis by (simp add: dispatch_def onerror_def split: if_splits)
next
  case TimerFires
  with assms show ?thesis by (simp add: dispatch_def on_timeout_def split: if_splits)
qed

lemma run_rejects:
  assumes "promise (run request onChunk inputs st) = Some (Inl e)"
  shows "promise st = Some (Inl e)
         \<or> (TimerFires \<in> set inputs \<and> e = new_Error ''Request timeout'')
         \<or> (OnError \<in> set inputs \<and> e = new_Error ''SSE connection error'')
         \<or> (\<exists>d err. OnMessage (Some d) \<in> set inputs \<and> truthy (ev_error d) = Some err
                      \<and> e = new_Error err)"
  using assms
proof (induction inputs arbitrary: st)
  case Nil
  then show ?case by simp
next
  case (Cons i inputs)
  from Cons.IH [of "dispatch request onChunk i st"] Cons.prems
  have "promise (dispatch request onChunk i st) = Some (Inl e)
         \<or> (TimerFires \<in> set inputs \<and> e = new_Error ''Request timeout'')
         \<or> (OnError \<in> set inputs \<and> e = new_Error ''SSE connection error'')
         \<or> (\<exists>d err. OnMessage (Some d) \<in> set inputs \<and> truthy (ev_error d) = Some err
                      \<and> e = new_Error err)"
    by simp
  then show ?case
  proof
    assume "promise (dispatch request onChunk i st) = Some (Inl e)"
    from dispatch_rejects [OF this] show ?thesis by auto
  next
    assume "(TimerFires \<in> set inputs \<and> e = new_Error ''Request timeout'')
         \<or> (OnError \<in> set inputs \<and> e = new_Error ''SSE connection error'')
         \<or> (\<exists>d err. OnMessage (Some d) \<in> set inputs \<and> truthy (ev_error d) = Some err
                      \<and> e = new_Error err)"
    then show ?thesis by auto
  qed
qed

lemma streaming_failure_reasons:
  assumes "promise (sendMessageWithStreaming this url request headers onChunk senv)
             = Some (Inl e)"
  shows "senv = EventSourceThrows e
         \<or> (\<exists>inputs. senv = EventSourceDelivers inputs \<and>
              ((TimerFires \<in> set inputs \<and> e = new_Error ''Request timeout'')
               \<or> (OnError \<in> set inputs \<and> e = new_Error ''SSE connection error'')
               \<or> (\<exists>d err. OnMessage (Some d) \<in> set inputs \<and> ev_error d = Some err
                            \<and> err \<noteq> [] \<and> e = new_Error err)))"
proof (cases senv)
  case (EventSourceThrows x)
  with assms show ?thesis by (simp add: sendMessageWithStreaming_def)
next
  case (EventSourceDelivers inputs)
  with assms run_rejects [of request onChunk inputs "executor_state this url request" e]
  show ?thesis
    by (auto simp: sendMessageWithStreaming_def truthy_Some_iff)
qed

section \<open>Non-success statuses of the fallback\<close>

lemma js_toString_500: "js_toString 500 = ''500''"
  by (simp add: js_toString.simps [of 500] js_toString.simps [of 50] js_toString.simps [of 5])

text \<open>
  C8. When the fallback POST answers with a status outside 200..299, the
  operation fails with an \<^verbatim>\<open>Error\<close> whose message holds the decimal status code
  and the text of the body, or the placeholder \<^verbatim>\<open>Unknown error\<close> when the body
  cannot be read. Scenario C is the instance with status 500 and body
  \<^verbatim>\<open>server error\<close>.
\<close>

theorem fallback_non_success_status:
  assumes "fetch url headers request = FetchResolves response"
    and "\<not> response_ok response"
  shows "fst (sendMessageNonStreaming this url request headers fetch) =
           Inl (JsError ''Error''
                  (''HTTP '' @ js_toString (status response) @ '': '' @
                     (case text_body response of Some t \<Rightarrow> t | None \<Rightarrow> ''Unknown error'')))"
  using assms
  by (simp add: sendMessageNonStreaming_def catch_clause_def new_Error_def Let_def)

theorem fallback_non_success_status_witness:
  "fst (sendMessageNonStreaming
          \<lparr>baseUrl = ''http://api'', chatEndpoint = ''/chat'', timeout = 30000\<rparr>
          ''http://api/chat''
          \<lparr>req_conversationId = None, req_message = ''hi'', req_history = []\<rparr>
          [(''Content-Type'', ''application/json'')]
          (\<lambda>u h r. FetchResolves
                     \<lparr>status = 500, text_body = Some ''server error'',
                      json_body = Inl (JsError ''SyntaxError'' ''Unexpected token'')\<rparr>))
     = Inl (JsError ''Error'' ''HTTP 500: server error'')"
  using fallback_non_success_status
    [of "\<lambda>u h r. FetchResolves
                     \<lparr>status = 500, text_body = Some ''server error'',
                      json_body = Inl (JsError ''SyntaxError'' ''Unexpected token'')\<rparr>"
        "''http://api/chat''"
        "[(''Content-Type'', ''application/json'')]"
        "\<lparr>req_conversationId = None, req_message = ''hi'', req_history = []\<rparr>"
        "\<lparr>status = 500, text_body = Some ''server error'',
          json_body = Inl (JsError ''SyntaxError'' ''Unexpected token'')\<rparr>"
        "\<lparr>baseUrl = ''http://api'', chatEndpoint = ''/chat'', timeout = 30000\<rparr>"]
  by (simp add: response_ok_def js_toString_500)

section \<open>Streamed completions\<close>

text \<open>
  C2, as amended. Take any stream whose payloads, up to an event with the
  completion flag, leave the stream open (no error text; a payload that does not
  parse is skipped). Then the promise resolves, the \<^verbatim>\<open>answer\<close> field of the response
  is the ordered concatenation of every non-empty fragment of the events handled
  up to and including the completing event, whose own fragment is appended
  before its flag is tested, and the callback has been called once per such
  fragment, in the same order. Whatever the stream delivers afterwards changes
  nothing. The witness is scenario A.
\<close>

theorem streamed_answer_is_concatenation:
  assumes "\<forall>p\<in>set pre. passes onChunk p" and "completes onChunk d"
  shows "(\<exists>r. promise (sendMessageWithStreaming this url request headers onChunk
                 (EventSourceDelivers (map OnMessage pre @ OnMessage (Some d) # rest)))
               = Some (Inr r)
             \<and> r = ChatResponse (final_conversationId request (pre @ [Some d]))
                     (concat (fragments (pre @ [Some d])))
             \<and> json_field ''answer'' r = Some (JStr (concat (fragments (pre @ [Some d]))))
             \<and> json_field ''conversationId'' r
                 = Some (JStr (final_conversationId request (pre @ [Some d]))))
    \<and> chunks (trace (sendMessageWithStreaming this url request headers onChunk
            (EventSourceDelivers (map OnMessage pre @ OnMessage (Some d) # rest))))
           = fragments (pre @ [Some d])"
  using streamed_completion [OF assms, of this url request headers rest]
  by (simp add: ChatResponse_def del: fragments.simps identifiers.simps fragments_append)

theorem streamed_answer_is_concatenation_witness:
  "promise (sendMessageWithStreaming \<lparr>baseUrl = ''http://api'', chatEndpoint = ''/chat'', timeout = 30000\<rparr> ''http://api/chat'' \<lparr>req_conversationId = None, req_message = ''hi'', req_history = []\<rparr> [(''Content-Type'', ''application/json'')] (\<lambda>chunk. True)
      (EventSourceDelivers
         (map OnMessage
            [Some \<lparr>ev_conversationId = None, ev_answer = Some ''He'',
                   ev_error = None, ev_done = None\<rparr>,
             Some \<lparr>ev_conversationId = None, ev_answer = Some ''llo'',
                   ev_error = None, ev_done = None\<rparr>]
          @ OnMessage (Some \<lparr>ev_conversationId = Some ''c1'', ev_answer = None,
                             ev_error = None, ev_done = Some True\<rparr>) # [])))
     = Some (Inr (JObj [(''conversationId'', JStr ''c1''), (''answer'', JStr ''Hello'')]))
   \<and> chunks (trace (sendMessageWithStreaming \<lparr>baseUrl = ''http://api'', chatEndpoint = ''/chat'', timeout = 30000\<rparr> ''http://api/chat'' \<lparr>req_conversationId = None, req_message = ''hi'', req_history = []\<rparr> [(''Content-Type'', ''application/json'')] (\<lambda>chunk. True)
      (EventSourceDelivers
         (map OnMessage
            [Some \<lparr>ev_conversationId = None, ev_answer = Some ''He'',
                   ev_error = None, ev_done = None\<rparr>,
             Some \<lparr>ev_conversationId = None, ev_answer = Some ''llo'',
                   ev_error = None, ev_done = None\<rparr>]
          @ OnMessage (Some \<lparr>ev_conversationId = Some ''c1'', ev_answer = None,
                             ev_error = None, ev_done = Some True\<rparr>) # []))))
     = [''He'', ''llo'']"
proof -
  have hyps: "\<forall>p\<in>set [Some \<lparr>ev_conversationId = None, ev_answer = Some ''He'',
                   ev_error = None, ev_done = None\<rparr>,
             Some \<lparr>ev_conversationId = None, ev_answer = Some ''llo'',
                   ev_error = None, ev_done = None\<rparr>]. passes (\<lambda>chunk. True) p"
    "completes (\<lambda>chunk. True) \<lparr>ev_conversationId = Some ''c1'', ev_answer = None,
                             ev_error = None, ev_done = Some True\<rparr>"
    by (simp_all add: passes_def completes_def has_error_def callback_throws_def)
  from streamed_answer_is_concatenation [OF hyps, of "\<lparr>baseUrl = ''http://api'', chatEndpoint = ''/chat'', timeout = 30000\<rparr>" "''http://api/chat''" "\<lparr>req_conversationId = None, req_message = ''hi'', req_history = []\<rparr>" "[(''Content-Type'', ''application/json'')]" "[]"]
  show ?thesis
    by (simp add: final_conversationId_def ChatResponse_def)
qed

text \<open>
  The claim as written takes the fragments of the events received before the
  completion flag is set. When the completing event carries a fragment itself,
  the answer and the callback calls hold it too: the events before the flag give
  \<^verbatim>\<open>He\<close>, the response says \<^verbatim>\<open>Hello\<close>.
\<close>

theorem completing_event_fragment_is_included:
  "promise (sendMessageWithStreaming \<lparr>baseUrl = ''http://api'', chatEndpoint = ''/chat'', timeout = 30000\<rparr> ''http://api/chat'' \<lparr>req_conversationId = None, req_message = ''hi'', req_history = []\<rparr> [(''Content-Type'', ''application/json'')] (\<lambda>chunk. True)
      (EventSourceDelivers
         [OnMessage (Some \<lparr>ev_conversationId = None, ev_answer = Some ''He'',
                           ev_error = None, ev_done = None\<rparr>),
          OnMessage (Some \<lparr>ev_conversationId = None, ev_answer = Some ''llo'',
                           ev_error = None, ev_done = Some True\<rparr>)]))
     = Some (Inr (JObj [(''conversationId'', JStr []), (''answer'', JStr ''Hello'')]))
   \<and> json_field ''answer'' (JObj [(''conversationId'', JStr []), (''answer'', JStr ''Hello'')])
     = Some (JStr ''Hello'')
   \<and> chunks (trace (sendMessageWithStreaming \<lparr>baseUrl = ''http://api'', chatEndpoint = ''/chat'', timeout = 30000\<rparr> ''http://api/chat'' \<lparr>req_conversationId = None, req_message = ''hi'', req_history = []\<rparr> [(''Content-Type'', ''application/json'')] (\<lambda>chunk. True)
      (EventSourceDelivers
         [OnMessage (Some \<lparr>ev_conversationId = None, ev_answer = Some ''He'',
                           ev_error = None, ev_done = None\<rparr>),
          OnMessage (Some \<lparr>ev_conversationId = None, ev_answer = Some ''llo'',
                           ev_error = None, ev_done = Some True\<rparr>)])))
     = [''He'', ''llo'']
   \<and> fragments [Some \<lparr>ev_conversationId = None, ev_answer = Some ''He'',
                        ev_error = None, ev_done = None\<rparr>] = [''He'']
   \<and> concat (fragments [Some \<lparr>ev_conversationId = None, ev_answer = Some ''He'',
                                ev_error = None, ev_done = None\<rparr>]) = ''He''
   \<and> json_field ''answer'' (JObj [(''conversationId'', JStr []), (''answer'', JStr ''Hello'')])
     \<noteq> Some (JStr (concat (fragments
                [Some \<lparr>ev_conversationId = None, ev_answer = Some ''He'',
                        ev_error = None, ev_done = None\<rparr>])))"
  by (simp add: sendMessageWithStreaming_def dispatch_def onmessage_def truthy_def
      executor_state_def emit_def cleanup_def eventSource_close_def clearTimeout_def
      resolve_def ChatResponse_def)

text \<open>
  C4. Under the same conditions the conversation identifier of the response is
  the last non-empty identifier among the events handled; when there is none it
  is the identifier of the request, and when the request has none it is the
  empty string.
\<close>

theorem streamed_conversationId:
  assumes "\<forall>p\<in>set pre. passes onChunk p" and "completes onChunk d"
  shows "\<exists>r. promise (sendMessageWithStreaming this url request headers onChunk
                 (EventSourceDelivers (map OnMessage pre @ OnMessage (Some d) # rest)))
               = Some (Inr r)
             \<and> json_field ''conversationId'' r
                 = Some (JStr (if identifiers (pre @ [Some d]) \<noteq> []
                               then last (identifiers (pre @ [Some d]))
                               else (case req_conversationId request of
                                       Some c \<Rightarrow> c | None \<Rightarrow> [])))"
  using streamed_completion [OF assms, of this url request headers rest]
  by (simp add: ChatResponse_def final_conversationId_def del: identifiers.simps identifiers_append)

theorem streamed_conversationId_witness:
  "(\<exists>r. promise (sendMessageWithStreaming
           \<lparr>baseUrl = ''http://api'', chatEndpoint = ''/chat'', timeout = 30000\<rparr>
           ''http://api/chat''
           \<lparr>req_conversationId = Some ''r0'', req_message = ''hi'', req_history = []\<rparr>
           [(''Content-Type'', ''application/json'')]
           (\<lambda>chunk. True)
           (EventSourceDelivers
              (map OnMessage
                 [Some \<lparr>ev_conversationId = Some ''a'', ev_answer = None,
                        ev_error = None, ev_done = None\<rparr>,
                  Some \<lparr>ev_conversationId = Some ''b'', ev_answer = Some ''x'',
                        ev_error = None, ev_done = None\<rparr>]
               @ OnMessage (Some \<lparr>ev_conversationId = Some [], ev_answer = None,
                                  ev_error = None, ev_done = Some True\<rparr>) # [])))
         = Some (Inr r)
       \<and> json_field ''conversationId'' r = Some (JStr ''b''))
   \<and> (\<exists>r. promise (sendMessageWithStreaming
           \<lparr>baseUrl = ''http://api'', chatEndpoint = ''/chat'', timeout = 30000\<rparr>
           ''http://api/chat''
           \<lparr>req_conversationId = Some ''r0'', req_message = ''hi'', req_history = []\<rparr>
           [(''Content-Type'', ''application/json'')]
           (\<lambda>chunk. True)
           (EventSourceDelivers
              (map OnMessage []
               @ OnMessage (Some \<lparr>ev_conversationId = None, ev_answer = Some ''x'',
                                  ev_error = None, ev_done = Some True\<rparr>) # [])))
         = Some (Inr r)
       \<and> json_field ''conversationId'' r = Some (JStr ''r0''))
   \<and> (\<exists>r. promise (sendMessageWithStreaming
           \<lparr>baseUrl = ''http://api'', chatEndpoint = ''/chat'', timeout = 30000\<rparr>
           ''http://api/chat''
           \<lparr>req_conversationId = None, req_message = ''hi'', req_history = []\<rparr>
           [(''Content-Type'', ''application/json'')]
           (\<lambda>chunk. True)
           (EventSourceDelivers
              (map OnMessage []
               @ OnMessage (Some \<lparr>ev_conversationId = None, ev_answer = Some ''x'',
                                  ev_error = None, ev_done = Some True\<rparr>) # [])))
         = Some (Inr r)
       \<and> json_field ''conversationId'' r = Some (JStr []))"
proof -
  have hyps: "\<forall>p\<in>set [Some \<lparr>ev_conversationId = Some ''a'', ev_answer = None,
                        ev_error = None, ev_done = None\<rparr>,
                  Some \<lparr>ev_conversationId = Some ''b'', ev_answer = Some ''x'',
                        ev_error = None, ev_done = None\<rparr>]. passes (\<lambda>chunk. True) p"
    "completes (\<lambda>chunk. True) \<lparr>ev_conversationId = Some [], ev_answer = None,
                                  ev_error = None, ev_done = Some True\<rparr>"
    "\<forall>p\<in>set []. passes (\<lambda>chunk. True) p"
    "completes (\<lambda>chunk. True) \<lparr>ev_conversationId = None, ev_answer = Some ''x'',
                                  ev_error = None, ev_done = Some True\<rparr>"
    by (simp_all add: passes_def completes_def has_error_def callback_throws_def)
  show ?thesis
    using streamed_conversationId [OF hyps(1,2),
        of "\<lparr>baseUrl = ''http://api'', chatEndpoint = ''/chat'', timeout = 30000\<rparr>"
           "''http://api/chat''"
           "\<lparr>req_conversationId = Some ''r0'', req_message = ''hi'', req_history = []\<rparr>"
           "[(''Content-Type'', ''application/json'')]" "[]"]
      streamed_conversationId [OF hyps(3,4),
        of "\<lparr>baseUrl = ''http://api'', chatEndpoint = ''/chat'', timeout = 30000\<rparr>"
           "''http://api/chat''"
           "\<lparr>req_conversationId = Some ''r0'', req_message = ''hi'', req_history = []\<rparr>"
           "[(''Content-Type'', ''application/json'')]" "[]"]
      streamed_conversationId [OF hyps(3,4),
        of "\<lparr>baseUrl = ''http://api'', chatEndpoint = ''/chat'', timeout = 30000\<rparr>"
           "''http://api/chat''"
           "\<lparr>req_conversationId = None, req_message = ''hi'', req_history = []\<rparr>"
           "[(''Content-Type'', ''application/json'')]" "[]"]
    by simp
qed

section \<open>The body of a successful fallback\<close>

text \<open>
  C10. When the POST answers with a success status and the body parses as
  JSON, \<^verbatim>\<open>sendMessageNonStreaming\<close> returns the parsed value as it is, whatever
  its shape: nothing checks that it has the fields of a \<^verbatim>\<open>ChatResponse\<close>. The
  witness returns the empty object.
\<close>

theorem fallback_returns_body_unvalidated:
  assumes "fetch url headers request = FetchResolves response"
    and "response_ok response"
    and "json_body response = Inr data"
  shows "sendMessageNonStreaming this url request headers fetch =
           (Inr data, [SetTimeout (timeout this), FetchPOST url headers request, ClearTimeout])"
  using assms by (simp add: sendMessageNonStreaming_def Let_def)

theorem fallback_returns_body_unvalidated_witness:
  "sendMessageNonStreaming
      \<lparr>baseUrl = ''http://api'', chatEndpoint = ''/chat'', timeout = 30000\<rparr>
      ''http://api/chat''
      \<lparr>req_conversationId = None, req_message = ''hi'', req_history = []\<rparr>
      [(''Content-Type'', ''application/json'')]
      (\<lambda>u h r. FetchResolves
                 \<lparr>status = 200, text_body = Some ''{}'',
                  json_body = Inr (JObj [])\<rparr>)
    = (Inr (JObj []),
       [SetTimeout 30000,
        FetchPOST ''http://api/chat'' [(''Content-Type'', ''application/json'')]
          \<lparr>req_conversationId = None, req_message = ''hi'', req_history = []\<rparr>,
        ClearTimeout])
   \<and> json_field ''conversationId'' (JObj []) = None"
  using fallback_returns_body_unvalidated
    [of "\<lambda>u h r. FetchResolves
                 \<lparr>status = 200, text_body = Some ''{}'',
                  json_body = Inr (JObj [])\<rparr>"
        "''http://api/chat''"
        "[(''Content-Type'', ''application/json'')]"
        "\<lparr>req_conversationId = None, req_message = ''hi'', req_history = []\<rparr>"
        "\<lparr>status = 200, text_body = Some ''{}'',
          json_body = Inr (JObj [])\<rparr>"
        "JObj []"
        "\<lparr>baseUrl = ''http://api'', chatEndpoint = ''/chat'', timeout = 30000\<rparr>"]
  by (simp add: response_ok_def)

section \<open>Choice of the transport\<close>

text \<open>
  C5. Without a callback, \<^verbatim>\<open>sendMessage\<close> is the fallback request and nothing
  else: its result and its effects are those of \<^verbatim>\<open>sendMessageNonStreaming\<close>, no
  event source is constructed, and the outcome does not depend on what a stream
  would have delivered.
\<close>

theorem no_callback_only_fallback:
  "sendMessage this request None senv fetch =
     (Some (fst (sendMessageNonStreaming this (baseUrl this @ chatEndpoint this) request
                   [(''Content-Type'', ''application/json'')] fetch)),
      snd (sendMessageNonStreaming this (baseUrl this @ chatEndpoint this) request
             [(''Content-Type'', ''application/json'')] fetch))
   \<and> NewEventSource u m c h \<notin> set (snd (sendMessage this request None senv fetch))
   \<and> hd (snd (sendMessage this request None senv fetch)) = SetTimeout (timeout this)
   \<and> FetchPOST (baseUrl this @ chatEndpoint this) [(''Content-Type'', ''application/json'')]
        request \<in> set (snd (sendMessage this request None senv fetch))"
  by (auto simp: sendMessage_def sendMessageNonStreaming_def Let_def
      split: prod.splits fetch_outcome.splits sum.splits)

theorem no_callback_only_fallback_witness:
  "sendMessage
      \<lparr>baseUrl = ''http://api'', chatEndpoint = ''/chat'', timeout = 30000\<rparr>
      \<lparr>req_conversationId = None, req_message = ''hi'', req_history = []\<rparr>
      None
      (EventSourceDelivers
         [OnMessage (Some \<lparr>ev_conversationId = Some ''c1'', ev_answer = Some ''Hello'',
                           ev_error = None, ev_done = Some True\<rparr>)])
      (\<lambda>u h r. FetchResolves
                 \<lparr>status = 200, text_body = Some ''{}'',
                  json_body = Inr (ChatResponse ''c2'' ''ok'')\<rparr>)
    = (Some (Inr (ChatResponse ''c2'' ''ok'')),
       [SetTimeout 30000,
        FetchPOST ''http://api/chat'' [(''Content-Type'', ''application/json'')]
          \<lparr>req_conversationId = None, req_message = ''hi'', req_history = []\<rparr>,
        ClearTimeout])"
proof -
  let ?c = "\<lparr>baseUrl = ''http://api'', chatEndpoint = ''/chat'', timeout = 30000\<rparr>"
  let ?r = "\<lparr>req_conversationId = None, req_message = ''hi'', req_history = []\<rparr>"
  let ?f = "\<lambda>(u::string) (h::(string \<times> string) list) (r::ChatRequest). FetchResolves
                 \<lparr>status = 200, text_body = Some ''{}'',
                  json_body = Inr (ChatResponse ''c2'' ''ok'')\<rparr>"
  have fb: "sendMessageNonStreaming ?c (baseUrl ?c @ chatEndpoint ?c) ?r
              [(''Content-Type'', ''application/json'')] ?f
            = (Inr (ChatResponse ''c2'' ''ok''),
               [SetTimeout 30000,
                FetchPOST ''http://api/chat'' [(''Content-Type'', ''application/json'')] ?r,
                ClearTimeout])"
    by (simp add: sendMessageNonStreaming_def response_ok_def Let_def)
  from no_callback_only_fallback [of ?c ?r _ ?f] fb
  show ?thesis by simp
qed

text \<open>
  C1. With a callback, when the promise of the streaming attempt is rejected,
  whatever the reason, \<^verbatim>\<open>sendMessage\<close> logs a warning and issues the POST with the
  same url, headers and request; what the fallback returns or throws is what the
  caller gets.
\<close>

theorem streaming_failure_falls_back:
  assumes "promise (sendMessageWithStreaming this (baseUrl this @ chatEndpoint this) request
                      [(''Content-Type'', ''application/json'')] onChunk senv) = Some (Inl err)"
  shows "fst (sendMessage this request (Some onChunk) senv fetch) =
           Some (fst (sendMessageNonStreaming this (baseUrl this @ chatEndpoint this) request
                        [(''Content-Type'', ''application/json'')] fetch))
    \<and> snd (sendMessage this request (Some onChunk) senv fetch) =
        trace (sendMessageWithStreaming this (baseUrl this @ chatEndpoint this) request
                 [(''Content-Type'', ''application/json'')] onChunk senv)
        @ [ConsoleWarn err]
        @ snd (sendMessageNonStreaming this (baseUrl this @ chatEndpoint this) request
                 [(''Content-Type'', ''application/json'')] fetch)
    \<and> take 2 (snd (sendMessageNonStreaming this (baseUrl this @ chatEndpoint this) request
                 [(''Content-Type'', ''application/json'')] fetch))
        = [SetTimeout (timeout this),
           FetchPOST (baseUrl this @ chatEndpoint this)
             [(''Content-Type'', ''application/json'')] request]"
  using assms
  by (auto simp: sendMessage_def sendMessageNonStreaming_def Let_def
      split: prod.splits fetch_outcome.splits sum.splits)

theorem streaming_failure_falls_back_witness:
  "fst (sendMessage
      \<lparr>baseUrl = ''http://api'', chatEndpoint = ''/chat'', timeout = 30000\<rparr>
      \<lparr>req_conversationId = None, req_message = ''hi'', req_history = []\<rparr>
      (Some (\<lambda>chunk. True))
      (EventSourceDelivers [OnError])
      (\<lambda>u h r. FetchResolves
                 \<lparr>status = 200, text_body = Some ''{}'',
                  json_body = Inr (ChatResponse ''c2'' ''ok'')\<rparr>))
    = Some (Inr (ChatResponse ''c2'' ''ok''))
   \<and> snd (sendMessage
      \<lparr>baseUrl = ''http://api'', chatEndpoint = ''/chat'', timeout = 30000\<rparr>
      \<lparr>req_conversationId = None, req_message = ''hi'', req_history = []\<rparr>
      (Some (\<lambda>chunk. True))
      (EventSourceDelivers [OnError])
      (\<lambda>u h r. FetchResolves
                 \<lparr>status = 200, text_body = Some ''{}'',
                  json_body = Inr (ChatResponse ''c2'' ''ok'')\<rparr>))
    = [NewEventSource ''http://api/chat'' ''hi'' [] [], SetTimeout 30000,
       EventSourceClose, ClearTimeout, Reject (JsError ''Error'' ''SSE connection error''),
       ConsoleWarn (JsError ''Error'' ''SSE connection error''),
       SetTimeout 30000,
       FetchPOST ''http://api/chat'' [(''Content-Type'', ''application/json'')]
         \<lparr>req_conversationId = None, req_message = ''hi'', req_history = []\<rparr>,
       ClearTimeout]"
proof -
  let ?c = "\<lparr>baseUrl = ''http://api'', chatEndpoint = ''/chat'', timeout = 30000\<rparr>"
  let ?r = "\<lparr>req_conversationId = None, req_message = ''hi'', req_history = []\<rparr>"
  let ?h = "[(''Content-Type'', ''application/json'')]"
  let ?f = "\<lambda>(u::string) (h::(string \<times> string) list) (r::ChatRequest). FetchResolves
                 \<lparr>status = 200, text_body = Some ''{}'',
                  json_body = Inr (ChatResponse ''c2'' ''ok'')\<rparr>"
  let ?st = "sendMessageWithStreaming ?c (baseUrl ?c @ chatEndpoint ?c) ?r ?h (\<lambda>chunk. True)
               (EventSourceDelivers [OnError])"
  have failed: "promise ?st = Some (Inl (JsError ''Error'' ''SSE connection error''))"
    by (simp add: sendMessageWithStreaming_def dispatch_def onerror_def new_Error_def)
  have tr: "trace ?st = [NewEventSource ''http://api/chat'' ''hi'' [] [], SetTimeout 30000,
       EventSourceClose, ClearTimeout, Reject (JsError ''Error'' ''SSE connection error'')]"
    by (simp add: sendMessageWithStreaming_def dispatch_def onerror_def new_Error_def
        executor_state_def truthy_def)
  have fb: "sendMessageNonStreaming ?c (baseUrl ?c @ chatEndpoint ?c) ?r ?h ?f
            = (Inr (ChatResponse ''c2'' ''ok''),
               [SetTimeout 30000, FetchPOST ''http://api/chat'' ?h ?r, ClearTimeout])"
    by (simp add: sendMessageNonStreaming_def response_ok_def Let_def)
  from streaming_failure_falls_back [OF failed, of ?f] tr fb
  show ?thesis by simp
qed

section \<open>Terminal events of the stream\<close>

text \<open>
  C3, as amended. An event whose error text is not empty, handled while the
  stream is open, ends the attempt at once: the connection is closed, the timer
  cleared and the promise rejected with an \<^verbatim>\<open>Error\<close> carrying that text. The final
  state does not depend on what the stream delivers afterwards, so no further
  event is handled and no completion flag is needed; the rejection is the only
  settlement of the invocation.
\<close>

theorem error_event_terminates:
  assumes "ev_error data = Some err" and "err \<noteq> []"
    and "\<not> es_closed (sendMessageWithStreaming this url request headers onChunk
                         (EventSourceDelivers pre))"
  shows "promise (sendMessageWithStreaming this url request headers onChunk
                    (EventSourceDelivers (pre @ OnMessage (Some data) # rest)))
           = Some (Inl (JsError ''Error'' err))
    \<and> trace (sendMessageWithStreaming this url request headers onChunk
                (EventSourceDelivers (pre @ OnMessage (Some data) # rest)))
        = trace (sendMessageWithStreaming this url request headers onChunk
                   (EventSourceDelivers pre))
          @ [EventSourceClose, ClearTimeout, Reject (JsError ''Error'' err)]
    \<and> filter is_settle
        (trace (sendMessageWithStreaming this url request headers onChunk
                  (EventSourceDelivers (pre @ OnMessage (Some data) # rest))))
        = [Reject (JsError ''Error'' err)]
    \<and> es_closed (sendMessageWithStreaming this url request headers onChunk
                    (EventSourceDelivers (pre @ OnMessage (Some data) # rest)))
    \<and> timer (sendMessageWithStreaming this url request headers onChunk
                (EventSourceDelivers (pre @ OnMessage (Some data) # rest))) = TimerCleared"
proof -
  let ?st0 = "run request onChunk pre (executor_state this url request)"
  let ?st1 = "reject (new_Error err) (cleanup ?st0)"
  have st0: "sendMessageWithStreaming this url request headers onChunk
               (EventSourceDelivers pre) = ?st0"
    by (simp add: sendMessageWithStreaming_def)
  have "stream_inv ?st0" by (simp add: run_inv stream_inv_executor)
  with assms(3) have o: "\<not> es_closed ?st0" "promise ?st0 = None" "timer ?st0 = TimerPending"
    "list_all quiet (trace ?st0)"
    by (simp_all add: st0 stream_inv_def)
  have tr: "truthy (ev_error data) = Some err"
    using assms(1,2) by (simp add: truthy_def)
  have step: "dispatch request onChunk (OnMessage (Some data)) ?st0 = ?st1"
    using o(1) tr by (simp add: dispatch_def onmessage_error)
  have q: "es_closed ?st1" "timer ?st1 \<noteq> TimerPending"
    using o(3) by simp_all
  have final: "sendMessageWithStreaming this url request headers onChunk
                 (EventSourceDelivers (pre @ OnMessage (Some data) # rest)) = ?st1"
    using step q by (simp add: sendMessageWithStreaming_def run_append run_quiescent)
  show ?thesis
    unfolding final st0 using o by (simp add: new_Error_def filter_settle_quiet is_settle_def)
qed

theorem error_event_terminates_witness:
  "promise (sendMessageWithStreaming
      \<lparr>baseUrl = ''http://api'', chatEndpoint = ''/chat'', timeout = 30000\<rparr>
      ''http://api/chat''
      \<lparr>req_conversationId = None, req_message = ''hi'', req_history = []\<rparr>
      [(''Content-Type'', ''application/json'')] (\<lambda>chunk. True)
      (EventSourceDelivers
         ([OnMessage (Some \<lparr>ev_conversationId = None, ev_answer = Some ''He'',
                            ev_error = None, ev_done = None\<rparr>)]
          @ OnMessage (Some \<lparr>ev_conversationId = None, ev_answer = Some ''llo'',
                             ev_error = Some ''boom'', ev_done = None\<rparr>)
          # [OnMessage (Some \<lparr>ev_conversationId = Some ''c1'', ev_answer = None,
                              ev_error = None, ev_done = Some True\<rparr>)])))
     = Some (Inl (JsError ''Error'' ''boom''))
   \<and> chunks (trace (sendMessageWithStreaming
      \<lparr>baseUrl = ''http://api'', chatEndpoint = ''/chat'', timeout = 30000\<rparr>
      ''http://api/chat''
      \<lparr>req_conversationId = None, req_message = ''hi'', req_history = []\<rparr>
      [(''Content-Type'', ''application/json'')] (\<lambda>chunk. True)
      (EventSourceDelivers
         ([OnMessage (Some \<lparr>ev_conversationId = None, ev_answer = Some ''He'',
                            ev_error = None, ev_done = None\<rparr>)]
          @ OnMessage (Some \<lparr>ev_conversationId = None, ev_answer = Some ''llo'',
                             ev_error = Some ''boom'', ev_done = None\<rparr>)
          # [OnMessage (Some \<lparr>ev_conversationId = Some ''c1'', ev_answer = None,
                              ev_error = None, ev_done = Some True\<rparr>)]))))
     = [''He'']"
proof -
  let ?c = "\<lparr>baseUrl = ''http://api'', chatEndpoint = ''/chat'', timeout = 30000\<rparr>"
  let ?r = "\<lparr>req_conversationId = None, req_message = ''hi'', req_history = []\<rparr>"
  let ?h = "[(''Content-Type'', ''application/json'')]"
  let ?pre = "[OnMessage (Some \<lparr>ev_conversationId = None, ev_answer = Some ''He'',
                            ev_error = None, ev_done = None\<rparr>)]"
  let ?st0 = "sendMessageWithStreaming ?c ''http://api/chat'' ?r ?h (\<lambda>chunk. True)
                (EventSourceDelivers ?pre)"
  have st0: "\<not> es_closed ?st0" "chunks (trace ?st0) = [''He'']"
    by (simp_all add: sendMessageWithStreaming_def dispatch_def onmessage_def truthy_def
        executor_state_def emit_def)
  have e: "ev_error \<lparr>ev_conversationId = None, ev_answer = Some ''llo'',
                      ev_error = Some ''boom'', ev_done = None\<rparr> = Some ''boom''"
    "''boom'' \<noteq> []"
    by simp_all
  from error_event_terminates [OF e st0(1)] st0(2)
  show ?thesis by simp
qed

text \<open>
  The claim as written speaks of any event carrying an error field. An event
  whose error text is the empty string carries one, and the handler's test is
  falsy for it: the stream goes on and completes with the next event.
\<close>

theorem empty_error_text_is_ignored:
  "ev_error \<lparr>ev_conversationId = None, ev_answer = None,
             ev_error = Some [], ev_done = None\<rparr> = Some []
   \<and> promise (sendMessageWithStreaming
      \<lparr>baseUrl = ''http://api'', chatEndpoint = ''/chat'', timeout = 30000\<rparr>
      ''http://api/chat''
      \<lparr>req_conversationId = None, req_message = ''hi'', req_history = []\<rparr>
      [(''Content-Type'', ''application/json'')] (\<lambda>chunk. True)
      (EventSourceDelivers
         [OnMessage (Some \<lparr>ev_conversationId = None, ev_answer = None,
                           ev_error = Some [], ev_done = None\<rparr>),
          OnMessage (Some \<lparr>ev_conversationId = None, ev_answer = Some ''ok'',
                           ev_error = None, ev_done = Some True\<rparr>)]))
     = Some (Inr (ChatResponse [] ''ok''))
   \<and> chunks (trace (sendMessageWithStreaming
      \<lparr>baseUrl = ''http://api'', chatEndpoint = ''/chat'', timeout = 30000\<rparr>
      ''http://api/chat''
      \<lparr>req_conversationId = None, req_message = ''hi'', req_history = []\<rparr>
      [(''Content-Type'', ''application/json'')] (\<lambda>chunk. True)
      (EventSourceDelivers
         [OnMessage (Some \<lparr>ev_conversationId = None, ev_answer = None,
                           ev_error = Some [], ev_done = None\<rparr>),
          OnMessage (Some \<lparr>ev_conversationId = None, ev_answer = Some ''ok'',
                           ev_error = None, ev_done = Some True\<rparr>)])))
     = [''ok'']"
  by (simp add: sendMessageWithStreaming_def dispatch_def onmessage_def truthy_def
      executor_state_def emit_def cleanup_def eventSource_close_def clearTimeout_def
      resolve_def)

section \<open>Payloads that do not parse\<close>

text \<open>
  C6. A payload that does not parse only adds a \<^verbatim>\<open>console.error\<close> call: the
  handler leaves the accumulators, the connection, the timer and the promise as
  they are and does not call the callback. Dropping the payload from the stream
  changes neither the outcome, nor the final state, nor the fragments reported,
  nor any effect other than that log entry, so the events after it are handled
  as they would have been.
\<close>

theorem unparsed_event_is_ignored:
  "onmessage request onChunk None st = st\<lparr>trace := trace st @ [ConsoleError]\<rparr>
   \<and> promise (sendMessageWithStreaming this url request headers onChunk
                (EventSourceDelivers (pre @ OnMessage None # rest)))
      = promise (sendMessageWithStreaming this url request headers onChunk
                   (EventSourceDelivers (pre @ rest)))
   \<and> accumulatedAnswer (sendMessageWithStreaming this url request headers onChunk
                (EventSourceDelivers (pre @ OnMessage None # rest)))
      = accumulatedAnswer (sendMessageWithStreaming this url request headers onChunk
                   (EventSourceDelivers (pre @ rest)))
   \<and> conversationId (sendMessageWithStreaming this url request headers onChunk
                (EventSourceDelivers (pre @ OnMessage None # rest)))
      = conversationId (sendMessageWithStreaming this url request headers onChunk
                   (EventSourceDelivers (pre @ rest)))
   \<and> es_closed (sendMessageWithStreaming this url request headers onChunk
                (EventSourceDelivers (pre @ OnMessage None # rest)))
      = es_closed (sendMessageWithStreaming this url request headers onChunk
                   (EventSourceDelivers (pre @ rest)))
   \<and> timer (sendMessageWithStreaming this url request headers onChunk
                (EventSourceDelivers (pre @ OnMessage None # rest)))
      = timer (sendMessageWithStreaming this url request headers onChunk
                   (EventSourceDelivers (pre @ rest)))
   \<and> chunks (trace (sendMessageWithStreaming this url request headers onChunk
                (EventSourceDelivers (pre @ OnMessage None # rest))))
      = chunks (trace (sendMessageWithStreaming this url request headers onChunk
                   (EventSourceDelivers (pre @ rest))))
   \<and> filter (\<lambda>e. e \<noteq> ConsoleError)
        (trace (sendMessageWithStreaming this url request headers onChunk
                (EventSourceDelivers (pre @ OnMessage None # rest))))
      = filter (\<lambda>e. e \<noteq> ConsoleError)
          (trace (sendMessageWithStreaming this url request headers onChunk
                   (EventSourceDelivers (pre @ rest))))"
proof -
  let ?st0 = "run request onChunk pre (executor_state this url request)"
  have eq: "log_equiv
      (sendMessageWithStreaming this url request headers onChunk
         (EventSourceDelivers (pre @ OnMessage None # rest)))
      (sendMessageWithStreaming this url request headers onChunk
         (EventSourceDelivers (pre @ rest)))"
    using run_log_equiv [OF dispatch_unparsed_log_equiv [of request onChunk ?st0],
        of request onChunk rest]
    by (simp add: sendMessageWithStreaming_def run_append)
  have "onmessage request onChunk None st = st\<lparr>trace := trace st @ [ConsoleError]\<rparr>"
    by (simp add: onmessage_None emit_def)
  with eq log_equiv_chunks [OF eq] show ?thesis
    by (simp add: log_equiv_def)
qed

theorem unparsed_event_is_ignored_witness:
  "promise (sendMessageWithStreaming
      \<lparr>baseUrl = ''http://api'', chatEndpoint = ''/chat'', timeout = 30000\<rparr>
      ''http://api/chat''
      \<lparr>req_conversationId = None, req_message = ''hi'', req_history = []\<rparr>
      [(''Content-Type'', ''application/json'')] (\<lambda>chunk. True)
      (EventSourceDelivers
         ([OnMessage (Some \<lparr>ev_conversationId = None, ev_answer = Some ''He'',
                            ev_error = None, ev_done = None\<rparr>)]
          @ OnMessage None
          # [OnMessage (Some \<lparr>ev_conversationId = None, ev_answer = Some ''llo'',
                              ev_error = None, ev_done = None\<rparr>),
             OnMessage (Some \<lparr>ev_conversationId = Some ''c1'', ev_answer = None,
                              ev_error = None, ev_done = Some True\<rparr>)])))
     = Some (Inr (ChatResponse ''c1'' ''Hello''))
   \<and> chunks (trace (sendMessageWithStreaming
      \<lparr>baseUrl = ''http://api'', chatEndpoint = ''/chat'', timeout = 30000\<rparr>
      ''http://api/chat''
      \<lparr>req_conversationId = None, req_message = ''hi'', req_history = []\<rparr>
      [(''Content-Type'', ''application/json'')] (\<lambda>chunk. True)
      (EventSourceDelivers
         ([OnMessage (Some \<lparr>ev_conversationId = None, ev_answer = Some ''He'',
                            ev_error = None, ev_done = None\<rparr>)]
          @ OnMessage None
          # [OnMessage (Some \<lparr>ev_conversationId = None, ev_answer = Some ''llo'',
                              ev_error = None, ev_done = None\<rparr>),
             OnMessage (Some \<lparr>ev_conversationId = Some ''c1'', ev_answer = None,
                              ev_error = None, ev_done = Some True\<rparr>)]))))
     = [''He'', ''llo'']"
proof -
  let ?c = "\<lparr>baseUrl = ''http://api'', chatEndpoint = ''/chat'', timeout = 30000\<rparr>"
  let ?r = "\<lparr>req_conversationId = None, req_message = ''hi'', req_history = []\<rparr>"
  let ?h = "[(''Content-Type'', ''application/json'')]"
  let ?pre = "[OnMessage (Some \<lparr>ev_conversationId = None, ev_answer = Some ''He'',
                            ev_error = None, ev_done = None\<rparr>)]"
  let ?rest = "[OnMessage (Some \<lparr>ev_conversationId = None, ev_answer = Some ''llo'',
                              ev_error = None, ev_done = None\<rparr>),
             OnMessage (Some \<lparr>ev_conversationId = Some ''c1'', ev_answer = None,
                              ev_error = None, ev_done = Some True\<rparr>)]"
  let ?st = "sendMessageWithStreaming ?c ''http://api/chat'' ?r ?h (\<lambda>chunk. True)
               (EventSourceDelivers (?pre @ ?rest))"
  have clean: "promise ?st = Some (Inr (ChatResponse ''c1'' ''Hello''))"
    "chunks (trace ?st) = [''He'', ''llo'']"
    by (simp_all add: sendMessageWithStreaming_def dispatch_def onmessage_def truthy_def
        executor_state_def emit_def cleanup_def eventSource_close_def clearTimeout_def
        resolve_def)
  from unparsed_event_is_ignored
         [of ?r "\<lambda>chunk. True" _ ?c "''http://api/chat''" ?h ?pre ?rest]
  have "promise (sendMessageWithStreaming ?c ''http://api/chat'' ?r ?h (\<lambda>chunk. True)
                   (EventSourceDelivers (?pre @ OnMessage None # ?rest))) = promise ?st"
    and "chunks (trace (sendMessageWithStreaming ?c ''http://api/chat'' ?r ?h (\<lambda>chunk. True)
                   (EventSourceDelivers (?pre @ OnMessage None # ?rest)))) = chunks (trace ?st)"
    by blast+
  with clean show ?thesis by simp
qed

section \<open>Release of the connection and the timer\<close>

text \<open>
  C9, as amended. Whenever the promise of a streaming attempt is settled, the
  connection is closed and no timer is pending. In the client without tracing
  every exit is coupled: \<^verbatim>\<open>close\<close>, \<^verbatim>\<open>clearTimeout\<close>, then the settlement, and no
  release or settlement before them. In the client with tracing the same holds
  on completion, on an error event and on a connection error; on timeout the
  timer's callback passes \<^verbatim>\<open>undefined\<close> to \<^verbatim>\<open>cleanup\<close>, so the connection is closed
  and the promise rejected without any call of \<^verbatim>\<open>clearTimeout\<close>, the timer having
  fired already.
\<close>

theorem releases_on_every_exit:
  "(promise (sendMessageWithStreaming this url request headers onChunk
               (EventSourceDelivers inputs)) \<noteq> None \<longrightarrow>
      es_closed (sendMessageWithStreaming this url request headers onChunk
                   (EventSourceDelivers inputs))
      \<and> timer (sendMessageWithStreaming this url request headers onChunk
                 (EventSourceDelivers inputs)) \<noteq> TimerPending
      \<and> coupled_exit (trace (sendMessageWithStreaming this url request headers onChunk
                               (EventSourceDelivers inputs))))
   \<and> (promise (sendMessageWithStreaming_traced this url request headers onChunk
               (EventSourceDelivers inputs)) \<noteq> None \<longrightarrow>
      es_closed (sendMessageWithStreaming_traced this url request headers onChunk
                   (EventSourceDelivers inputs))
      \<and> timer (sendMessageWithStreaming_traced this url request headers onChunk
                 (EventSourceDelivers inputs)) \<noteq> TimerPending
      \<and> (if timer (sendMessageWithStreaming_traced this url request headers onChunk
                      (EventSourceDelivers inputs)) = TimerFired
         then bare_timeout_exit
                (trace (sendMessageWithStreaming_traced this url request headers onChunk
                          (EventSourceDelivers inputs)))
         else coupled_exit
                (trace (sendMessageWithStreaming_traced this url request headers onChunk
                          (EventSourceDelivers inputs)))))"
proof -
  have "stream_inv (sendMessageWithStreaming this url request headers onChunk
                      (EventSourceDelivers inputs))"
    by (simp add: sendMessageWithStreaming_def run_inv stream_inv_executor)
  moreover have "stream_inv_traced (sendMessageWithStreaming_traced this url request headers
                      onChunk (EventSourceDelivers inputs))"
    by (simp add: sendMessageWithStreaming_traced_def run_traced_inv stream_inv_traced_executor)
  ultimately show ?thesis
    unfolding stream_inv_def stream_inv_traced_def by (simp split: if_splits)
qed

theorem releases_on_every_exit_witness:
  "coupled_exit (trace (sendMessageWithStreaming
      \<lparr>baseUrl = ''http://api'', chatEndpoint = ''/chat'', timeout = 30000\<rparr>
      ''http://api/chat''
      \<lparr>req_conversationId = None, req_message = ''hi'', req_history = []\<rparr>
      [(''Content-Type'', ''application/json'')] (\<lambda>chunk. True)
      (EventSourceDelivers [TimerFires])))
   \<and> bare_timeout_exit (trace (sendMessageWithStreaming_traced
      \<lparr>baseUrl = ''http://api'', chatEndpoint = ''/chat'', timeout = 30000\<rparr>
      ''http://api/chat''
      \<lparr>req_conversationId = None, req_message = ''hi'', req_history = []\<rparr>
      [(''Content-Type'', ''application/json'')] (\<lambda>chunk. True)
      (EventSourceDelivers [TimerFires])))"
proof -
  let ?c = "\<lparr>baseUrl = ''http://api'', chatEndpoint = ''/chat'', timeout = 30000\<rparr>"
  let ?r = "\<lparr>req_conversationId = None, req_message = ''hi'', req_history = []\<rparr>"
  let ?h = "[(''Content-Type'', ''application/json'')]"
  let ?st = "sendMessageWithStreaming ?c ''http://api/chat'' ?r ?h (\<lambda>chunk. True)
               (EventSourceDelivers [TimerFires])"
  let ?st' = "sendMessageWithStreaming_traced ?c ''http://api/chat'' ?r ?h (\<lambda>chunk. True)
               (EventSourceDelivers [TimerFires])"
  have settled: "promise ?st \<noteq> None" "promise ?st' \<noteq> None" "timer ?st' = TimerFired"
    by (simp_all add: sendMessageWithStreaming_def sendMessageWithStreaming_traced_def
        dispatch_def dispatch_traced_def on_timeout_def on_timeout_traced_def)
  from releases_on_every_exit [of ?c "''http://api/chat''" ?r ?h "\<lambda>chunk. True" "[TimerFires]"]
    settled
  show ?thesis by simp
qed

text \<open>
  The timeout exit of the client with tracing: the effects hold no
  \<^verbatim>\<open>clearTimeout\<close>, against the claim that both releases are executed together
  on every exit path.
\<close>

theorem traced_timeout_skips_clearTimeout:
  "trace (sendMessageWithStreaming_traced
      \<lparr>baseUrl = ''http://api'', chatEndpoint = ''/chat'', timeout = 30000\<rparr>
      ''http://api/chat''
      \<lparr>req_conversationId = None, req_message = ''hi'', req_history = []\<rparr>
      [(''Content-Type'', ''application/json'')] (\<lambda>chunk. True)
      (EventSourceDelivers [TimerFires]))
    = [NewEventSource ''http://api/chat'' ''hi'' [] [], SetTimeout 30000,
       EventSourceClose, Reject (JsError ''Error'' ''Request timeout'')]
   \<and> promise (sendMessageWithStreaming_traced
      \<lparr>baseUrl = ''http://api'', chatEndpoint = ''/chat'', timeout = 30000\<rparr>
      ''http://api/chat''
      \<lparr>req_conversationId = None, req_message = ''hi'', req_history = []\<rparr>
      [(''Content-Type'', ''application/json'')] (\<lambda>chunk. True)
      (EventSourceDelivers [TimerFires]))
    = Some (Inl (JsError ''Error'' ''Request timeout''))"
  by (simp add: sendMessageWithStreaming_traced_def dispatch_traced_def on_timeout_traced_def
      executor_state_def new_Error_def truthy_def)

section \<open>Timers\<close>

text \<open>
  The model has no clock: a timer shows in the call that arms it, with its
  duration, and in the moment its callback runs among the other events.
\<close>

lemma attempts_arm_same_timeout:
  "trace (executor_state this url request) ! 1 = SetTimeout (timeout this)"
  "hd (snd (sendMessageNonStreaming this url request headers fetch)) = SetTimeout (timeout this)"
  by (auto simp: executor_state_def sendMessageNonStreaming_def Let_def
      split: fetch_outcome.splits sum.splits)


lemma fallback_abort_is_timeout:
  assumes "fetch url headers request = FetchRejects (JsError ''AbortError'' msg)"
  shows "fst (sendMessageNonStreaming this url request headers fetch)
           = Inl (new_Error ''Request timeout'')"
  using assms by (simp add: sendMessageNonStreaming_def catch_clause_def)












section \<open>The transport client with tracing\<close>

text \<open>
  In the client with tracing the fallback's result reaches the caller when it
  is an error or a response whose \<^verbatim>\<open>answer\<close> can be read; otherwise the read for
  the span throws and the caller gets that \<^verbatim>\<open>TypeError\<close>.
\<close>

lemma traced_failure_falls_back:
  assumes "promise (sendMessageWithStreaming_traced this (baseUrl this @ chatEndpoint this)
                      request [(''Content-Type'', ''application/json'')] onChunk senv)
             = Some (Inl err)"
  shows "fst (sendMessage_traced this request (Some onChunk) senv fetch typeError) =
           (case fst (sendMessageNonStreaming this (baseUrl this @ chatEndpoint this) request
                        [(''Content-Type'', ''application/json'')] fetch) of
              Inl error \<Rightarrow> Some (Inl error)
            | Inr response \<Rightarrow>
                if reads_answer_length response then Some (Inr response)
                else Some (Inl (typeError response)))"
  using assms
  by (simp add: sendMessage_traced_def Let_def split: prod.splits sum.splits)

lemma traced_no_callback_only_fallback:
  "snd (sendMessage_traced this request None senv fetch typeError)
     = snd (sendMessageNonStreaming this (baseUrl this @ chatEndpoint this) request
              [(''Content-Type'', ''application/json'')] fetch)"
  by (simp add: sendMessage_traced_def Let_def split: prod.splits sum.splits)

lemma traced_body_without_answer_throws:
  "fst (sendMessage_traced
      \<lparr>baseUrl = ''http://api'', chatEndpoint = ''/chat'', timeout = 30000\<rparr>
      \<lparr>req_conversationId = None, req_message = ''hi'', req_history = []\<rparr>
      None senv
      (\<lambda>u h r. FetchResolves
                 \<lparr>status = 200, text_body = Some ''{}'', json_body = Inr (JObj [])\<rparr>)
      typeError)
    = Some (Inl (typeError (JObj [])))"
  by (simp add: sendMessage_traced_def sendMessageNonStreaming_def response_ok_def
      reads_answer_length_def Let_def)

end
